theory Spec2Isabelle
  imports Main "HOL-Library.Word" "HOL-Library.AList" "HOL-Library.Sublist"
begin

section \<open>JavaScript strings\<close>

text \<open>
  A JavaScript string is a sequence of UTF-16 code units. The denylist of
  \<^verbatim>\<open>src/transform.ts\<close> holds characters outside ASCII (currency signs, guillemets),
  each one code unit long, so a string is a list of 16-bit words; \<open>length\<close> is the
  \<^verbatim>\<open>.length\<close> of the source. \<open>js\<close> embeds an ASCII literal.
\<close>

type_synonym u16 = "16 word"
type_synonym jsstring = "u16 list"

definition js :: "string \<Rightarrow> jsstring" where
  "js s = map (\<lambda>c. of_nat (of_char c)) s"

text \<open>
  The code units matched by \<^verbatim>\<open>\s\<close> in a regular expression and stripped by
  \<^verbatim>\<open>String.prototype.trim\<close>: ECMAScript WhiteSpace and LineTerminator.
\<close>

definition isWhiteSpace :: "u16 \<Rightarrow> bool" where
  "isWhiteSpace c =
     (c = 0x09 \<or> c = 0x0A \<or> c = 0x0B \<or> c = 0x0C \<or> c = 0x0D \<or> c = 0x20 \<or>
      c = 0xA0 \<or> c = 0x1680 \<or> (0x2000 \<le> c \<and> c \<le> 0x200A) \<or>
      c = 0x2028 \<or> c = 0x2029 \<or> c = 0x202F \<or> c = 0x205F \<or> c = 0x3000 \<or>
      c = 0xFEFF)"

text \<open>\<^verbatim>\<open>s.trim()\<close>\<close>

definition trim :: "jsstring \<Rightarrow> jsstring" where
  "trim s = rev (dropWhile isWhiteSpace (rev (dropWhile isWhiteSpace s)))"

text \<open>\<^verbatim>\<open>s.replace(/\s+/g, r)\<close>: every maximal run of white space becomes \<open>r\<close>.\<close>

function replaceWhiteSpaceRuns :: "jsstring \<Rightarrow> jsstring \<Rightarrow> jsstring" where
  "replaceWhiteSpaceRuns r [] = []"
| "replaceWhiteSpaceRuns r (c # cs) =
     (if isWhiteSpace c then r @ replaceWhiteSpaceRuns r (dropWhile isWhiteSpace cs)
      else c # replaceWhiteSpaceRuns r cs)"
  by pat_completeness auto
termination
  by (relation "measure (\<lambda>(r, s). length s)")
     (auto simp: le_imp_less_Suc length_dropWhile_le)

text \<open>
  \<^verbatim>\<open>sanitizeText\<close> (transform.ts 252-254):
  \<^verbatim>\<open>text.replace(/\s+/g, ' ').trim()\<close>
\<close>

definition sanitizeText :: "jsstring \<Rightarrow> jsstring" where
  "sanitizeText text = trim (replaceWhiteSpaceRuns (js '' '') text)"

text \<open>
  \<^verbatim>\<open>s.toLowerCase()\<close> on the letters A-Z; any other code unit is left as it is.
  Where the key deriver lowers a string, the string holds ASCII letters, digits and
  \<^verbatim>\<open>-\<close> only (lemma \<open>slugify_pre_lower\<close>), so the Unicode case table is not needed
  there.
\<close>

definition toLowerCaseUnit :: "u16 \<Rightarrow> u16" where
  "toLowerCaseUnit c = (if 0x41 \<le> c \<and> c \<le> 0x5A then c + 0x20 else c)"

definition toLowerCase :: "jsstring \<Rightarrow> jsstring" where
  "toLowerCase s = map toLowerCaseUnit s"

text \<open>
  The first code unit lowered when it is one of the letters A-Z, the rest as it is:
  what \<^verbatim>\<open>_.lowerFirst(s)\<close> gives when the first code unit of the name is ASCII.
\<close>

fun lowerFirstASCII :: "jsstring \<Rightarrow> jsstring" where
  "lowerFirstASCII [] = []"
| "lowerFirstASCII (c # cs) = toLowerCaseUnit c # cs"

text \<open>The decimal digits of a number, as \<^verbatim>\<open>`${n}`\<close> prints it.\<close>

fun decimal :: "nat \<Rightarrow> jsstring" where
  "decimal n =
     (if n < 10 then [of_nat (48 + n)] else decimal (n div 10) @ [of_nat (48 + n mod 10)])"

declare decimal.simps [simp del]

text \<open>\<^verbatim>\<open>s.split('.').pop()\<close>: what follows the last full stop of \<open>s\<close>.\<close>

definition last_segment :: "jsstring \<Rightarrow> jsstring" where
  "last_segment s = rev (takeWhile (\<lambda>c. c \<noteq> 0x2E) (rev s))"

text \<open>
  \<^verbatim>\<open>s.replace(/\{\{.*?\}\}/g, '')\<close>. At a position that starts with two opening
  braces the lazy \<^verbatim>\<open>.*?\<close> runs to the first pair of closing braces, and cannot
  cross a line terminator (\<^verbatim>\<open>.\<close> matches none); \<open>find_close\<close> returns what
  follows the match. Where there is no match the scan goes on one unit further.
\<close>

definition isLineTerminator :: "u16 \<Rightarrow> bool" where
  "isLineTerminator c = (c = 0x0A \<or> c = 0x0D \<or> c = 0x2028 \<or> c = 0x2029)"

fun find_close :: "jsstring \<Rightarrow> jsstring option" where
  "find_close [] = None"
| "find_close [c] = None"
| "find_close (c # d # cs) =
     (if c = 0x7D \<and> d = 0x7D then Some cs
      else if isLineTerminator c then None
      else find_close (d # cs))"

lemma find_close_length: "find_close s = Some r \<Longrightarrow> length r < length s"
  by (induction s arbitrary: r rule: find_close.induct) (auto split: if_splits)

function removePlaceholders :: "jsstring \<Rightarrow> jsstring" where
  "removePlaceholders [] = []"
| "removePlaceholders [c] = [c]"
| "removePlaceholders (c # d # cs) =
     (if c = 0x7B \<and> d = 0x7B then
        (case find_close cs of
           Some rest \<Rightarrow> removePlaceholders rest
         | None \<Rightarrow> c # removePlaceholders (d # cs))
      else c # removePlaceholders (d # cs))"
  by pat_completeness auto
termination
  by (relation "measure length") (auto dest: find_close_length)

section \<open>Syntax trees and paths\<close>

text \<open>
  The transform works on the tree that the parser of jscodeshift returns: objects with a
  \<^verbatim>\<open>type\<close> and named fields (\<open>Node\<close>), plain objects (\<open>Obj\<close>, as the
  \<^verbatim>\<open>value\<close> of a template element), arrays and primitive values. The code reads a
  tree by field name (\<^verbatim>\<open>path.value.name.name\<close>), so the model keeps names and does
  not fix the shape of each kind of node. The fields of a node are listed in the order
  in which a traversal visits them.
\<close>

datatype jsval =
    Node string "(string \<times> jsval) list"
  | Obj "(string \<times> jsval) list"
  | Arr "jsval list"
  | Str jsstring
  | Bool bool
  | Null
  | Undefined

text \<open>
  \<^verbatim>\<open>v?.k\<close>: the field \<open>k\<close> of \<open>v\<close>, and undefined where \<open>v\<close> has none.
\<close>

fun get :: "jsval \<Rightarrow> string \<Rightarrow> jsval" where
  "get (Node t fs) k =
     (if k = ''type'' then Str (js t)
      else (case map_of fs k of Some v \<Rightarrow> v | None \<Rightarrow> Undefined))"
| "get (Obj fs) k = (case map_of fs k of Some v \<Rightarrow> v | None \<Rightarrow> Undefined)"
| "get v k = Undefined"

text \<open>
  \<^verbatim>\<open>T.isSupertypeOf(t)\<close> of ast-types: \<open>t\<close> is \<open>T\<close> or a type declared with \<open>T\<close>
  among its bases. Of the types that the transform tests or searches for, two have a
  type below them: the optional call is a call expression and the optional member
  access is a member expression.
\<close>

fun isSupertypeOf :: "string \<Rightarrow> string \<Rightarrow> bool" where
  "isSupertypeOf T t =
     (t = T \<or>
      T = ''CallExpression'' \<and> t = ''OptionalCallExpression'' \<or>
      T = ''MemberExpression'' \<and> t = ''OptionalMemberExpression'')"

text \<open>
  \<^verbatim>\<open>j.T.check(v)\<close> and \<^verbatim>\<open>namedTypes.T.check(v)\<close>: \<open>v\<close> is a node of type \<open>T\<close> or
  of a type below \<open>T\<close>. The search \<^verbatim>\<open>find(j.T)\<close> returns the same nodes.
\<close>

fun check :: "string \<Rightarrow> jsval \<Rightarrow> bool" where
  "check T (Node t fs) = isSupertypeOf T t"
| "check T v = False"

text \<open>\<^verbatim>\<open>o.k = v\<close> on a node or object.\<close>

fun set_prop :: "jsval \<Rightarrow> string \<Rightarrow> jsval \<Rightarrow> jsval" where
  "set_prop (Node t fs) k v = Node t (AList.update k v fs)"
| "set_prop (Obj fs) k v = Obj (AList.update k v fs)"
| "set_prop w k v = w"

text \<open>The elements of an array; the string held by a string value.\<close>

fun elems :: "jsval \<Rightarrow> jsval list" where
  "elems (Arr vs) = vs"
| "elems v = []"

fun str_of :: "jsval \<Rightarrow> jsstring" where
  "str_of (Str s) = s"
| "str_of v = []"

text \<open>
  A \<^verbatim>\<open>NodePath\<close> is a position in the tree: the field names and array indices that
  lead from the root to its value. The path of an array element has the path of the
  array as its \<^verbatim>\<open>parentPath\<close>, and the root has none.
\<close>

datatype step = PField string | PIndex nat

type_synonym path = "step list"

fun child :: "jsval \<Rightarrow> step \<Rightarrow> jsval" where
  "child (Node t fs) (PField k) = (case map_of fs k of Some v \<Rightarrow> v | None \<Rightarrow> Undefined)"
| "child (Obj fs) (PField k) = (case map_of fs k of Some v \<Rightarrow> v | None \<Rightarrow> Undefined)"
| "child (Arr vs) (PIndex i) = (if i < length vs then vs ! i else Undefined)"
| "child v s = Undefined"

text \<open>\<^verbatim>\<open>path.value\<close>\<close>

definition value_at :: "jsval \<Rightarrow> path \<Rightarrow> jsval" where
  "value_at root p = foldl child root p"

text \<open>\<^verbatim>\<open>path.parentPath\<close>\<close>

definition parentPath :: "path \<Rightarrow> path option" where
  "parentPath p = (if p = [] then None else Some (butlast p))"

text \<open>\<^verbatim>\<open>path?.value\<close>\<close>

fun path_value :: "jsval \<Rightarrow> path option \<Rightarrow> jsval" where
  "path_value root None = Undefined"
| "path_value root (Some p) = value_at root p"

text \<open>
  The traversal behind \<^verbatim>\<open>find\<close>: the paths of the nodes that satisfy \<open>P\<close>, a node
  before what it contains, fields and elements from left to right.
\<close>

primrec visit :: "(jsval \<Rightarrow> bool) \<Rightarrow> jsval \<Rightarrow> path list" where
  "visit P (Node t fs) =
     (if P (Node t fs) then [[]] else []) @
     concat (map (\<lambda>(k, ps). map ((#) (PField k)) ps) (map (map_prod id (visit P)) fs))"
| "visit P (Obj fs) =
     concat (map (\<lambda>(k, ps). map ((#) (PField k)) ps) (map (map_prod id (visit P)) fs))"
| "visit P (Arr vs) =
     concat (map (\<lambda>(i, ps). map ((#) (PIndex i)) ps) (zip [0..<length vs] (map (visit P) vs)))"
| "visit P (Str s) = []"
| "visit P (Bool b) = []"
| "visit P Null = []"
| "visit P Undefined = []"

text \<open>
  \<^verbatim>\<open>collection.find(j.T)\<close> from a root: the nodes of type \<open>T\<close> below the root (the
  root itself is not a result), as paths from that root.
\<close>

definition find :: "string \<Rightarrow> jsval \<Rightarrow> path list" where
  "find T root = filter (\<lambda>p. p \<noteq> []) (visit (check T) root)"

text \<open>The tree with \<open>f\<close> applied to the value at a path.\<close>

fun update_step :: "jsval \<Rightarrow> step \<Rightarrow> (jsval \<Rightarrow> jsval) \<Rightarrow> jsval" where
  "update_step (Node t fs) (PField k) f = Node t (map (\<lambda>(k', v). if k' = k then (k', f v) else (k', v)) fs)"
| "update_step (Obj fs) (PField k) f = Obj (map (\<lambda>(k', v). if k' = k then (k', f v) else (k', v)) fs)"
| "update_step (Arr vs) (PIndex i) f = (if i < length vs then Arr (vs[i := f (vs ! i)]) else Arr vs)"
| "update_step v s f = v"

fun update_at :: "jsval \<Rightarrow> path \<Rightarrow> (jsval \<Rightarrow> jsval) \<Rightarrow> jsval" where
  "update_at v [] f = f v"
| "update_at v (s # p) f = update_step v s (\<lambda>w. update_at w p f)"

subsection \<open>Builders\<close>

text \<open>
  The builders of jscodeshift that the transform calls, with the fields the transform
  gives them.
\<close>

definition j_identifier :: "jsstring \<Rightarrow> jsval" where
  "j_identifier name = Node ''Identifier'' [(''name'', Str name)]"

definition j_literal :: "jsstring \<Rightarrow> jsval" where
  "j_literal v = Node ''Literal'' [(''value'', Str v)]"

definition j_callExpression :: "jsval \<Rightarrow> jsval list \<Rightarrow> jsval" where
  "j_callExpression callee args = Node ''CallExpression'' [(''callee'', callee), (''arguments'', Arr args)]"

definition j_jsxExpressionContainer :: "jsval \<Rightarrow> jsval" where
  "j_jsxExpressionContainer e = Node ''JSXExpressionContainer'' [(''expression'', e)]"

definition j_jsxAttribute :: "jsval \<Rightarrow> jsval \<Rightarrow> jsval" where
  "j_jsxAttribute name v = Node ''JSXAttribute'' [(''name'', name), (''value'', v)]"

definition j_objectProperty :: "jsval \<Rightarrow> jsval \<Rightarrow> bool \<Rightarrow> jsval" where
  "j_objectProperty k v shorthand =
     Node ''ObjectProperty'' [(''key'', k), (''value'', v), (''shorthand'', Bool shorthand), (''computed'', Bool False)]"

definition j_objectExpression :: "jsval list \<Rightarrow> jsval" where
  "j_objectExpression properties = Node ''ObjectExpression'' [(''properties'', Arr properties)]"

definition j_objectPattern :: "jsval list \<Rightarrow> jsval" where
  "j_objectPattern properties = Node ''ObjectPattern'' [(''properties'', Arr properties)]"

definition j_variableDeclarator :: "jsval \<Rightarrow> jsval \<Rightarrow> jsval" where
  "j_variableDeclarator ident init = Node ''VariableDeclarator'' [(''id'', ident), (''init'', init)]"

definition j_variableDeclaration :: "jsstring \<Rightarrow> jsval list \<Rightarrow> jsval" where
  "j_variableDeclaration kind declarations =
     Node ''VariableDeclaration'' [(''kind'', Str kind), (''declarations'', Arr declarations)]"

definition j_blockStatement :: "jsval list \<Rightarrow> jsval" where
  "j_blockStatement body = Node ''BlockStatement'' [(''body'', Arr body)]"

definition j_returnStatement :: "jsval \<Rightarrow> jsval" where
  "j_returnStatement argument = Node ''ReturnStatement'' [(''argument'', argument)]"

definition j_importSpecifier :: "jsval \<Rightarrow> jsval" where
  "j_importSpecifier imported = Node ''ImportSpecifier'' [(''imported'', imported)]"

definition j_importDeclaration :: "jsval list \<Rightarrow> jsval \<Rightarrow> jsval" where
  "j_importDeclaration specifiers source =
     Node ''ImportDeclaration'' [(''specifiers'', Arr specifiers), (''source'', source)]"

section \<open>What the libraries provide\<close>

text \<open>
  Four things come from packages that are not among the sources and are parameters of
  the model: Unicode normalisation (\<^verbatim>\<open>String.prototype.normalize\<close>), the
  transliteration table of \<^verbatim>\<open>slugify\<close>, the printer behind
  \<^verbatim>\<open>j(expression).toSource()\<close>, and \<^verbatim>\<open>_.lowerFirst\<close> of lodash, which lowers
  the first character by the case table of Unicode.
\<close>

record libs =
  nfc :: "jsstring \<Rightarrow> jsstring"
  charMap :: "u16 \<Rightarrow> jsstring option"
  toSource :: "jsval \<Rightarrow> jsstring"
  lowerFirst :: "jsstring \<Rightarrow> jsstring"

section \<open>The denylist and the text filter\<close>

text \<open>
  \<^verbatim>\<open>BLACKLIST_TRANSLATION_CHARS\<close> (transform.ts 69-77). Each string constant is
  given by its code units, in the order of the source.
\<close>

definition NUMBERS :: jsstring where
  "NUMBERS = js ''0123456789''"

definition CURRENCIES :: jsstring where
  "CURRENCIES = [0x24, 0x20AC, 0xA3, 0xA5, 0x20BD, 0x20BA, 0x20B9, 0x20A9, 0x20AA, 0x20B4]"

definition PUNCTUATION :: jsstring where
  "PUNCTUATION = [0x2E, 0x2C, 0x21, 0x3F, 0x3A, 0x3B, 0x27, 0x22, 0x60]"

definition MATH :: jsstring where
  "MATH = js ''+=-*/%<>''"

definition BRACKETS :: jsstring where
  "BRACKETS = js ''()[]{}'' @ [0xAB, 0xBB]"

definition SPECIAL :: jsstring where
  "SPECIAL = [0x40, 0x23, 0x24, 0x5E, 0x26, 0x7C, 0x5C, 0x7E, 0xB7, 0xA9]"

definition SEPARATORS :: "jsstring list" where
  "SEPARATORS = [js '' '', js '''', js ''-'', js ''_'']"

text \<open>\<^verbatim>\<open>s.split('')\<close>: the code units of \<open>s\<close>, each as a string of length one.\<close>

definition split_chars :: "jsstring \<Rightarrow> jsstring list" where
  "split_chars s = map (\<lambda>c. [c]) s"

text \<open>\<^verbatim>\<open>CONSTANTS.TRANSLATION_BLACKLIST\<close> (transform.ts 98-106).\<close>

definition TRANSLATION_BLACKLIST :: "jsstring list" where
  "TRANSLATION_BLACKLIST =
     split_chars NUMBERS @ split_chars CURRENCIES @ split_chars PUNCTUATION @
     split_chars MATH @ split_chars BRACKETS @ split_chars SPECIAL @ SEPARATORS"

text \<open>
  The filter of \<^verbatim>\<open>transformJSXText\<close> (transform.ts 372-375), the text classifier of
  the specification:
  \<^verbatim>\<open>!CONSTANTS.TRANSLATION_BLACKLIST.includes(path.node.value.trim())\<close>
\<close>

definition isTranslatable :: "jsstring \<Rightarrow> bool" where
  "isTranslatable text = (trim text \<notin> set TRANSLATION_BLACKLIST)"

section \<open>The key deriver\<close>

text \<open>The class \<^verbatim>\<open>[A-Za-z0-9]\<close>.\<close>

definition isAlnum :: "u16 \<Rightarrow> bool" where
  "isAlnum c = ((0x41 \<le> c \<and> c \<le> 0x5A) \<or> (0x61 \<le> c \<and> c \<le> 0x7A) \<or> (0x30 \<le> c \<and> c \<le> 0x39))"

text \<open>
  The option \<^verbatim>\<open>remove: /[*+~.()'"!:@]/g\<close> of the call in \<^verbatim>\<open>createTranslationKey\<close>
  (transform.ts 236): the code units of the character class.
\<close>

definition REMOVE :: jsstring where
  "REMOVE = js ''*+~.()'' @ [0x27, 0x22] @ js ''!:@''"

text \<open>
  Modelled from the spec: the routine \<^verbatim>\<open>slugify\<close> is imported from a package and is
  not among the sources. Section 4.2 describes its result: a URL-safe lowercase slug,
  with diacritics transliterated, runs of white space replaced by one separator
  \<^verbatim>\<open>-\<close> and the configured punctuation dropped. The model gives that result by the
  steps that the package documents for the options of the call (transform.ts 235-240:
  \<^verbatim>\<open>remove\<close>, \<^verbatim>\<open>lower\<close>, \<^verbatim>\<open>strict\<close>, \<^verbatim>\<open>trim\<close>):
  \<^item> the text is normalised (\<^verbatim>\<open>String.prototype.normalize\<close>, the parameter
    \<open>nfc\<close> of \<open>libs\<close>) and taken apart into code units;
  \<^item> each unit is replaced by its entry in the transliteration table (the parameter
    \<open>charMap\<close>) or kept, a replacement equal to the separator becomes a space, and
    the units of \<open>REMOVE\<close> are deleted from it;
  \<^item> \<^verbatim>\<open>strict\<close>: everything outside \<^verbatim>\<open>[A-Za-z0-9\s]\<close> is deleted;
  \<^item> \<^verbatim>\<open>trim\<close>: white space at both ends is stripped;
  \<^item> runs of white space become one \<^verbatim>\<open>-\<close>;
  \<^item> \<^verbatim>\<open>lower\<close>: the result is lowered.
\<close>

definition slugify_unit :: "(u16 \<Rightarrow> jsstring option) \<Rightarrow> u16 \<Rightarrow> jsstring" where
  "slugify_unit table ch =
     (let appendChar = (case table ch of None \<Rightarrow> [ch] | Some s \<Rightarrow> s);
          appendChar = (if appendChar = js ''-'' then js '' '' else appendChar)
      in filter (\<lambda>c. c \<notin> set REMOVE) appendChar)"

definition slugify :: "libs \<Rightarrow> jsstring \<Rightarrow> jsstring" where
  "slugify E string =
     (let slug = concat (map (slugify_unit (charMap E)) (nfc E string));
          slug = filter (\<lambda>c. isAlnum c \<or> isWhiteSpace c) slug;
          slug = trim slug;
          slug = replaceWhiteSpaceRuns (js ''-'') slug
      in toLowerCase slug)"

definition TRANSLATION_KEY_MAX_LENGTH :: nat where
  "TRANSLATION_KEY_MAX_LENGTH = 40"

text \<open>
  \<^verbatim>\<open>createTranslationKey\<close> (transform.ts 234-241):
  \<^verbatim>\<open>slugify(text, {...}).slice(0, CONSTANTS.TRANSLATION_KEY_MAX_LENGTH)\<close>
\<close>

definition createTranslationKey :: "libs \<Rightarrow> jsstring \<Rightarrow> jsstring" where
  "createTranslationKey E text = take TRANSLATION_KEY_MAX_LENGTH (slugify E text)"

text \<open>The alphabet of a key: the lowercase letters, the digits and the separator.\<close>

definition isSlugUnit :: "u16 \<Rightarrow> bool" where
  "isSlugUnit c = ((0x61 \<le> c \<and> c \<le> 0x7A) \<or> (0x30 \<le> c \<and> c \<le> 0x39) \<or> c = 0x2D)"

section \<open>The catalog store\<close>

text \<open>
  The value that \<^verbatim>\<open>JSON.parse\<close> returns; the type of numbers is left open. An
  object lists its own properties.
\<close>

datatype 'n json =
    JNull
  | JBool bool
  | JNum 'n
  | JStr jsstring
  | JArr "'n json list"
  | JObj "(jsstring \<times> 'n json) list"

datatype jserror = IOError | SyntaxError | TypeError

text \<open>
  The file system and the parser are the environment of the load:
  \<^verbatim>\<open>fs.readFileSync(path, 'utf8')\<close> returns the text of a file or throws, and
  \<^verbatim>\<open>JSON.parse(data)\<close> returns a value or throws.
\<close>

record 'n host =
  readFileSync :: "jsstring \<Rightarrow> jserror + jsstring"
  JSON_parse :: "jsstring \<Rightarrow> jserror + 'n json"

text \<open>
  \<^verbatim>\<open>parsedTranslations[translationRoot]\<close>: reading a property of \<^verbatim>\<open>null\<close>
  throws a TypeError; an object gives the value stored under the key and
  \<^verbatim>\<open>undefined\<close> (\<open>None\<close>) when it stores none. Only own properties of objects are
  modelled: members that a value inherits from its prototype, and the indices of a
  string or an array, read as \<^verbatim>\<open>undefined\<close> here.
\<close>

fun member :: "'n json \<Rightarrow> jsstring \<Rightarrow> jserror + 'n json option" where
  "member JNull k = Inl TypeError"
| "member (JObj kvs) k = Inr (map_of kvs k)"
| "member v k = Inr None"

text \<open>
  The body of the \<^verbatim>\<open>try\<close> block of \<^verbatim>\<open>readTranslations\<close> (transform.ts 136-140).
  The root key is optional, and an empty string is falsy.
\<close>

definition readTranslations_try ::
    "'n host \<Rightarrow> jsstring \<Rightarrow> jsstring option \<Rightarrow> jserror + 'n json option" where
  "readTranslations_try H path translationRoot =
     (case readFileSync H path of
        Inl e \<Rightarrow> Inl e
      | Inr data \<Rightarrow>
          (case JSON_parse H data of
             Inl e \<Rightarrow> Inl e
           | Inr parsedTranslations \<Rightarrow>
               (case translationRoot of
                  None \<Rightarrow> Inr (Some parsedTranslations)
                | Some r \<Rightarrow>
                    if r \<noteq> [] then member parsedTranslations r
                    else Inr (Some parsedTranslations))))"

text \<open>
  \<^verbatim>\<open>readTranslations\<close> (transform.ts 131-144): whatever the block throws is caught
  and the empty object is returned.
\<close>

definition readTranslations ::
    "'n host \<Rightarrow> jsstring \<Rightarrow> jsstring option \<Rightarrow> jserror + 'n json option" where
  "readTranslations H path translationRoot =
     (case readTranslations_try H path translationRoot of
        Inl e \<Rightarrow> Inr (Some (JObj []))
      | Inr v \<Rightarrow> Inr v)"

text \<open>
  The catalog in memory: an object that maps component names to objects that map keys to
  texts, each written as the list of its properties in the order of their insertion. The
  update is that of the three passes (transform.ts 385-388), which keeps the place of a
  property that exists and appends one that is new:
  \<^verbatim>\<open>translations[componentName] = {...translations[componentName], [key]: value}\<close>
\<close>

type_synonym catalog = "(jsstring \<times> (jsstring \<times> jsstring) list) list"

definition addTranslation :: "catalog \<Rightarrow> jsstring \<Rightarrow> jsstring \<Rightarrow> jsstring \<Rightarrow> catalog" where
  "addTranslation tr name k v =
     AList.update name (AList.update k v (case map_of tr name of None \<Rightarrow> [] | Some m \<Rightarrow> m)) tr"

section \<open>The scope resolver\<close>

text \<open>\<^verbatim>\<open>getClosestFunctionAST\<close> (transform.ts 204-222).\<close>

function getClosestFunctionAST :: "jsval \<Rightarrow> path option \<Rightarrow> path option" where
  "getClosestFunctionAST root None = None"
| "getClosestFunctionAST root (Some p) =
     (if check ''FunctionDeclaration'' (value_at root p) \<or>
         check ''ArrowFunctionExpression'' (value_at root p)
      then Some p
      else getClosestFunctionAST root (parentPath p))"
  by pat_completeness auto
termination
  by (relation "measure (\<lambda>(root, pp). case pp of None \<Rightarrow> 0 | Some p \<Rightarrow> Suc (length p))")
     (auto simp: parentPath_def split: if_splits)

text \<open>
  \<^verbatim>\<open>x ?? 'UnknownFunction'\<close> for the name read from an identifier: a name that is
  present is a string (the parser gives an identifier no other), and one that is
  \<^verbatim>\<open>null\<close> or \<^verbatim>\<open>undefined\<close> gives the sentinel.
\<close>

fun name_or_unknown :: "jsval \<Rightarrow> jsstring" where
  "name_or_unknown (Str s) = s"
| "name_or_unknown v = js ''UnknownFunction''"

text \<open>\<^verbatim>\<open>getFunctionName\<close> (transform.ts 181-194).\<close>

definition getFunctionName :: "jsval \<Rightarrow> path \<Rightarrow> jsstring" where
  "getFunctionName root fd =
     (if check ''ArrowFunctionExpression'' (value_at root fd)
      then name_or_unknown (get (get (path_value root (parentPath fd)) ''id'') ''name'')
      else if check ''FunctionDeclaration'' (value_at root fd)
      then name_or_unknown (get (get (value_at root fd) ''id'') ''name'')
      else js ''UnknownFunction'')"

section \<open>The setup injector\<close>

text \<open>
  \<^verbatim>\<open>path.insertBefore(node)\<close>: \<open>node\<close> is inserted into the array that holds the
  value of the path, at its index. Every import declaration that the parser returns is
  an element of an array of statements; for another path the tree is left as it is.
\<close>

fun insertAt :: "nat \<Rightarrow> jsval \<Rightarrow> jsval \<Rightarrow> jsval" where
  "insertAt i n (Arr vs) = Arr (take i vs @ n # drop i vs)"
| "insertAt i n v = v"

fun insertBefore :: "jsval \<Rightarrow> path \<Rightarrow> jsval \<Rightarrow> jsval" where
  "insertBefore root [] n = root"
| "insertBefore root (s # p) n =
     (case last (s # p) of
        PIndex i \<Rightarrow> update_at root (butlast (s # p)) (insertAt i n)
      | PField k \<Rightarrow> root)"

text \<open>\<^verbatim>\<open>ensureTranslationImport\<close> (transform.ts 266-283).\<close>

definition ensureTranslationImport :: "jsstring \<Rightarrow> jsval \<Rightarrow> jsval" where
  "ensureTranslationImport importPackage root =
     (let hasImport =
            (filter (\<lambda>path. get (get (value_at root path) ''source'') ''value'' = Str importPackage)
               (find ''ImportDeclaration'' root) \<noteq> [])
      in if \<not> hasImport then
           (let importDecl =
                  j_importDeclaration [j_importSpecifier (j_identifier (js ''useTranslation''))]
                    (j_literal importPackage)
            in foldl (\<lambda>r path. insertBefore r path importDecl) root
                 (take 1 (find ''ImportDeclaration'' root)))
         else root)"

text \<open>
  The hook declaration \<^verbatim>\<open>const { t } = useTranslation();\<close> that
  \<^verbatim>\<open>ensureTranslationHook\<close> builds (transform.ts 320-331).
\<close>

definition hook :: jsval where
  "hook =
     j_variableDeclaration (js ''const'')
       [j_variableDeclarator
          (j_objectPattern
             [Node ''ObjectProperty''
                [(''key'', j_identifier (js ''t'')), (''value'', j_identifier (js ''t'')),
                 (''shorthand'', Bool True)]])
          (j_callExpression (j_identifier (js ''useTranslation'')) [])]"

text \<open>
  The test of \<^verbatim>\<open>ensureTranslationHook\<close> (transform.ts 310-317): the function
  holds a call whose callee is the identifier \<^verbatim>\<open>useTranslation\<close>. The search
  returns optional calls as well, so \<^verbatim>\<open>useTranslation?.()\<close> counts.
\<close>

definition hasHook :: "jsval \<Rightarrow> bool" where
  "hasHook fn =
     (filter (\<lambda>path. get (get (value_at fn path) ''callee'') ''type'' = Str (js ''Identifier'') \<and>
                      get (get (value_at fn path) ''callee'') ''name'' = Str (js ''useTranslation''))
        (find ''CallExpression'' fn) \<noteq> [])"

text \<open>\<^verbatim>\<open>array.unshift(v)\<close>\<close>

fun unshift :: "jsval \<Rightarrow> jsval \<Rightarrow> jsval" where
  "unshift v (Arr vs) = Arr (v # vs)"
| "unshift v w = w"

text \<open>
  \<^verbatim>\<open>ensureTranslationHook\<close> (transform.ts 304-350), on the node of the function
  (\<^verbatim>\<open>functionAST.value\<close>), which the source changes in place.
\<close>

definition ensureTranslationHook :: "jsval \<Rightarrow> jsval" where
  "ensureTranslationHook fn =
     (if \<not> hasHook fn then
        (if check ''FunctionDeclaration'' fn \<or> check ''ArrowFunctionExpression'' fn then
           (let functionBody = get fn ''body'' in
            if check ''BlockStatement'' functionBody
            then set_prop fn ''body''
                   (set_prop functionBody ''body'' (unshift hook (get functionBody ''body'')))
            else set_prop fn ''body'' (j_blockStatement [hook, j_returnStatement functionBody]))
         else fn)
      else fn)"

section \<open>The extraction passes\<close>

text \<open>\<^verbatim>\<open>CONSTANTS.JSX_ATTRIBUTES_TO_TRANSLATE\<close> (transform.ts 87-92).\<close>

definition JSX_ATTRIBUTES_TO_TRANSLATE :: "jsstring list" where
  "JSX_ATTRIBUTES_TO_TRANSLATE = [js ''alt'', js ''aria-label'', js ''title'', js ''description'']"

text \<open>\<^verbatim>\<open>CONSTANTS.TEMPLATE_LITERAL_BLACKLIST\<close> (transform.ts 95).\<close>

definition TEMPLATE_LITERAL_BLACKLIST :: "jsstring list" where
  "TEMPLATE_LITERAL_BLACKLIST = [js ''className'', js ''href'', js ''src'', js ''key'']"

text \<open>
  Each pass is \<^verbatim>\<open>root.find(j.T).filter(f).forEach(g)\<close>. For the path of a candidate,
  \<open>g\<close> either returns early or computes the owning function, the component name, the
  catalog entry and the replacement node, and then does the same four things in every
  pass: it stores the entry, calls \<^verbatim>\<open>ensureTranslationImport\<close> and
  \<^verbatim>\<open>ensureTranslationHook\<close>, and replaces the node of the path. A \<open>rewrite\<close> is what
  \<open>g\<close> has computed when it does not return early.
\<close>

record rewrite =
  functionAST :: path
  componentName :: jsstring
  entry_key :: jsstring
  entry_value :: jsstring
  replacement :: jsval

text \<open>
  \<^verbatim>\<open>j.callExpression(j.identifier('t'), [j.literal(`${componentName}.${key}`), ...])\<close>
\<close>

definition t_call :: "jsstring \<Rightarrow> jsstring \<Rightarrow> jsval list \<Rightarrow> jsval" where
  "t_call name k args =
     j_callExpression (j_identifier (js ''t'')) (j_literal (name @ js ''.'' @ k) # args)"

subsection \<open>Text\<close>

text \<open>The candidates of \<^verbatim>\<open>transformJSXText\<close> (transform.ts 370-375).\<close>

definition transformJSXText_filter :: "jsval \<Rightarrow> path \<Rightarrow> bool" where
  "transformJSXText_filter root path = isTranslatable (str_of (get (value_at root path) ''value''))"

text \<open>The body of its \<^verbatim>\<open>forEach\<close> (transform.ts 376-401).\<close>

definition transformJSXText_rewrite :: "libs \<Rightarrow> jsval \<Rightarrow> path \<Rightarrow> rewrite option" where
  "transformJSXText_rewrite E root path =
     (case getClosestFunctionAST root (Some path) of
        None \<Rightarrow> None
      | Some fn \<Rightarrow>
          (let name = lowerFirst E (getFunctionName root fn);
               v = sanitizeText (str_of (get (value_at root path) ''value''));
               k = createTranslationKey E v
           in Some \<lparr>functionAST = fn, componentName = name, entry_key = k, entry_value = v,
                     replacement = j_jsxExpressionContainer (t_call name k [])\<rparr>))"

subsection \<open>Attributes\<close>

text \<open>The filter of \<^verbatim>\<open>transformJSXAttributes\<close> (transform.ts 424-439).\<close>

definition transformJSXAttributes_filter :: "jsval \<Rightarrow> path \<Rightarrow> bool" where
  "transformJSXAttributes_filter root path =
     (if \<not> check ''StringLiteral'' (get (value_at root path) ''value'') then False
      else (case get (get (value_at root path) ''name'') ''name'' of
              Str jsxAttribute \<Rightarrow> jsxAttribute \<in> set JSX_ATTRIBUTES_TO_TRANSLATE
            | _ \<Rightarrow> False))"

text \<open>The body of its \<^verbatim>\<open>forEach\<close> (transform.ts 440-471).\<close>

definition transformJSXAttributes_rewrite :: "libs \<Rightarrow> jsval \<Rightarrow> path \<Rightarrow> rewrite option" where
  "transformJSXAttributes_rewrite E root path =
     (if \<not> check ''StringLiteral'' (get (value_at root path) ''value'') then None
      else
        (case getClosestFunctionAST root (Some path) of
           None \<Rightarrow> None
         | Some fn \<Rightarrow>
             (let name = lowerFirst E (getFunctionName root fn);
                  v = sanitizeText (str_of (get (get (value_at root path) ''value'') ''value''));
                  k = createTranslationKey E v
              in Some \<lparr>functionAST = fn, componentName = name, entry_key = k, entry_value = v,
                        replacement =
                          j_jsxAttribute (get (value_at root path) ''name'')
                            (j_jsxExpressionContainer (t_call name k []))\<rparr>)))"

subsection \<open>Template literals\<close>

text \<open>A value that is truthy.\<close>

fun truthy :: "jsval \<Rightarrow> bool" where
  "truthy Undefined = False"
| "truthy Null = False"
| "truthy (Bool b) = b"
| "truthy (Str s) = (s \<noteq> [])"
| "truthy v = True"

text \<open>The filter of \<^verbatim>\<open>transformTemplateLiterals\<close> (transform.ts 492-511).\<close>

definition transformTemplateLiterals_filter :: "jsval \<Rightarrow> path \<Rightarrow> bool" where
  "transformTemplateLiterals_filter root path =
     (let parent = path_value root (parentPath path);
          grandparent = path_value root (Option.bind (parentPath path) parentPath)
      in if check ''JSXAttribute'' grandparent \<and> truthy (get grandparent ''name'') \<and>
            (case get (get grandparent ''name'') ''name'' of
               Str n \<Rightarrow> n \<in> set TEMPLATE_LITERAL_BLACKLIST
             | _ \<Rightarrow> False)
         then False
         else if get parent ''type'' = Str (js ''TaggedTemplateExpression'') then False
         else True)"

text \<open>
  The paths on which the pass runs the body of its \<^verbatim>\<open>forEach\<close>:
  \<^verbatim>\<open>root.find(j.TemplateLiteral).filter(...)\<close>
\<close>

definition transformTemplateLiterals_candidates :: "jsval \<Rightarrow> path list" where
  "transformTemplateLiterals_candidates root =
     filter (transformTemplateLiterals_filter root) (find ''TemplateLiteral'' root)"

text \<open>
  The name of the placeholder of the expression with index \<open>i\<close> (transform.ts 525-535).
\<close>

definition varName :: "libs \<Rightarrow> jsval \<Rightarrow> nat \<Rightarrow> jsstring" where
  "varName E expression i =
     (if get expression ''type'' = Str (js ''Identifier'') then str_of (get expression ''name'')
      else if get expression ''type'' = Str (js ''MemberExpression'') then
        (let source = toSource E expression
         in if last_segment source \<noteq> [] then last_segment source
            else js ''var'' @ decimal (i + 1))
      else js ''var'' @ decimal (i + 1))"

text \<open>
  \<^verbatim>\<open>quasi.value.cooked\<close> inside a template string: the cooked text, which is a string
  or (after an invalid escape) \<^verbatim>\<open>null\<close>.
\<close>

definition cooked :: "jsval \<Rightarrow> jsstring" where
  "cooked quasi = (case get (get quasi ''value'') ''cooked'' of Str s \<Rightarrow> s | _ \<Rightarrow> js ''null'')"

text \<open>
  The loop over the expressions (transform.ts 522-550), from index \<open>i\<close> with the text
  and the properties collected so far. Reading a quasi that the array does not have
  throws (\<open>None\<close>).
\<close>

fun decompose ::
    "libs \<Rightarrow> jsval list \<Rightarrow> jsval list \<Rightarrow> nat \<Rightarrow> jsstring \<Rightarrow> jsval list \<Rightarrow> (jsstring \<times> jsval list) option" where
  "decompose E quasis [] i text expressionProperties =
     (if i < length quasis then Some (text @ cooked (quasis ! i), expressionProperties)
      else None)"
| "decompose E quasis (expression # rest) i text expressionProperties =
     (if i < length quasis then
        decompose E quasis rest (Suc i)
          (text @ cooked (quasis ! i) @ js ''{{'' @ varName E expression i @ js ''}}'')
          (expressionProperties @
             [j_objectProperty (j_identifier (varName E expression i)) expression
                (get expression ''type'' = Str (js ''Identifier'') \<and>
                 get expression ''name'' = Str (varName E expression i))])
      else None)"

text \<open>The body of the \<^verbatim>\<open>forEach\<close> of the pass (transform.ts 512-576).\<close>

definition transformTemplateLiterals_rewrite ::
    "libs \<Rightarrow> jsval \<Rightarrow> path \<Rightarrow> jserror + rewrite option" where
  "transformTemplateLiterals_rewrite E root path =
     (case getClosestFunctionAST root (Some path) of
        None \<Rightarrow> Inr None
      | Some fn \<Rightarrow>
          (case decompose E (elems (get (value_at root path) ''quasis''))
                  (elems (get (value_at root path) ''expressions'')) 0 [] [] of
             None \<Rightarrow> Inl TypeError
           | Some (text, expressionProperties) \<Rightarrow>
               (let name = lowerFirst E (getFunctionName root fn);
                    v = sanitizeText text;
                    k = createTranslationKey E (removePlaceholders v);
                    tArgs = (if length expressionProperties > 0
                             then [j_objectExpression expressionProperties] else [])
                in Inr (Some \<lparr>functionAST = fn, componentName = name, entry_key = k,
                                entry_value = v, replacement = t_call name k tArgs\<rparr>))))"

section \<open>Example trees\<close>

text \<open>
  The nodes that the parser returns for the sources used as examples below, with the
  fields that the transform reads.
\<close>

definition jsxText :: "jsstring \<Rightarrow> jsval" where
  "jsxText s = Node ''JSXText'' [(''value'', Str s)]"

definition jsxIdentifier :: "jsstring \<Rightarrow> jsval" where
  "jsxIdentifier n = Node ''JSXIdentifier'' [(''name'', Str n)]"

definition stringLiteral :: "jsstring \<Rightarrow> jsval" where
  "stringLiteral s = Node ''StringLiteral'' [(''value'', Str s)]"

definition jsxElement :: "jsstring \<Rightarrow> jsval list \<Rightarrow> jsval list \<Rightarrow> jsval" where
  "jsxElement name attributes children =
     Node ''JSXElement''
       [(''openingElement'',
           Node ''JSXOpeningElement'' [(''name'', jsxIdentifier name), (''attributes'', Arr attributes)]),
        (''closingElement'', Node ''JSXClosingElement'' [(''name'', jsxIdentifier name)]),
        (''children'', Arr children)]"

text \<open>An element without children that closes itself, as \<^verbatim>\<open><img alt="Logo" />\<close>.\<close>

definition jsxSelfClosingElement :: "jsstring \<Rightarrow> jsval list \<Rightarrow> jsval" where
  "jsxSelfClosingElement name attributes =
     Node ''JSXElement''
       [(''openingElement'',
           Node ''JSXOpeningElement'' [(''name'', jsxIdentifier name), (''attributes'', Arr attributes)]),
        (''closingElement'', Null),
        (''children'', Arr [])]"

definition templateElement :: "jsstring \<Rightarrow> jsval" where
  "templateElement s = Node ''TemplateElement'' [(''value'', Obj [(''raw'', Str s), (''cooked'', Str s)])]"

definition templateLiteral :: "jsval list \<Rightarrow> jsval list \<Rightarrow> jsval" where
  "templateLiteral quasis expressions =
     Node ''TemplateLiteral'' [(''quasis'', Arr quasis), (''expressions'', Arr expressions)]"

definition memberExpression :: "jsval \<Rightarrow> jsstring \<Rightarrow> jsval" where
  "memberExpression object property =
     Node ''MemberExpression''
       [(''object'', object), (''property'', j_identifier property), (''computed'', Bool False)]"

definition functionDeclaration :: "jsstring \<Rightarrow> jsval \<Rightarrow> jsval" where
  "functionDeclaration name body =
     Node ''FunctionDeclaration'' [(''id'', j_identifier name), (''params'', Arr []), (''body'', body)]"

definition arrowFunctionExpression :: "jsval \<Rightarrow> jsval" where
  "arrowFunctionExpression body = Node ''ArrowFunctionExpression'' [(''params'', Arr []), (''body'', body)]"

definition functionExpression :: "jsval \<Rightarrow> jsval" where
  "functionExpression body = Node ''FunctionExpression'' [(''id'', Null), (''params'', Arr []), (''body'', body)]"

definition constDeclaration :: "jsstring \<Rightarrow> jsval \<Rightarrow> jsval" where
  "constDeclaration name init =
     j_variableDeclaration (js ''const'') [j_variableDeclarator (j_identifier name) init]"

definition sourceFile :: "jsval list \<Rightarrow> jsval" where
  "sourceFile body = Node ''File'' [(''program'', Node ''Program'' [(''body'', Arr body)])]"

text \<open>
  The input of the example at the head of transform.ts (lines 13-16):
  \<^verbatim>\<open>function Welcome() { return <div>Hello World</div> }\<close>
\<close>

definition Welcome_file :: jsval where
  "Welcome_file =
     sourceFile [functionDeclaration (js ''Welcome'')
             (j_blockStatement [j_returnStatement (jsxElement (js ''div'') [] [jsxText (js ''Hello World'')])])]"

text \<open>
  The same component in a file that imports something else first:
  \<^verbatim>\<open>import React from 'react'; function Welcome() { return <div>Hello World</div> }\<close>
\<close>

definition Welcome_react_file :: jsval where
  "Welcome_react_file =
     sourceFile
       [j_importDeclaration [Node ''ImportDefaultSpecifier'' [(''local'', j_identifier (js ''React''))]]
          (stringLiteral (js ''react'')),
        functionDeclaration (js ''Welcome'')
          (j_blockStatement [j_returnStatement (jsxElement (js ''div'') [] [jsxText (js ''Hello World'')])])]"

text \<open>
  A component bound to a \<^verbatim>\<open>function\<close> expression:
  \<^verbatim>\<open>const Legacy = function () { return <div>Hello World</div> };\<close>
\<close>

definition Legacy_file :: jsval where
  "Legacy_file =
     sourceFile [constDeclaration (js ''Legacy'')
             (functionExpression
                (j_blockStatement [j_returnStatement (jsxElement (js ''div'') [] [jsxText (js ''Hello World'')])]))]"

text \<open>
  A component written as an arrow function with an expression body:
  \<^verbatim>\<open>const Badge = () => <img alt="Logo" />;\<close>
\<close>

definition Badge_file :: jsval where
  "Badge_file =
     sourceFile [constDeclaration (js ''Badge'')
             (arrowFunctionExpression
                (jsxSelfClosingElement (js ''img'') [j_jsxAttribute (jsxIdentifier (js ''alt'')) (stringLiteral (js ''Logo''))]))]"

text \<open>
  The same element outside any function:
  \<^verbatim>\<open>const logo = <img alt="Logo" />;\<close>
\<close>

definition logo_file :: jsval where
  "logo_file =
     sourceFile [constDeclaration (js ''logo'')
             (jsxSelfClosingElement (js ''img'') [j_jsxAttribute (jsxIdentifier (js ''alt'')) (stringLiteral (js ''Logo''))])]"



text \<open>
  A component with a template literal in a denied attribute and a tagged template:
  \<^verbatim>\<open>function Card() { return <div className={`card wide`}>{css`bold text`}</div> }\<close>
\<close>

definition Card_file :: jsval where
  "Card_file =
     sourceFile [functionDeclaration (js ''Card'')
             (j_blockStatement
                [j_returnStatement
                   (jsxElement (js ''div'')
                      [j_jsxAttribute (jsxIdentifier (js ''className''))
                         (j_jsxExpressionContainer (templateLiteral [templateElement (js ''card wide'')] []))]
                      [j_jsxExpressionContainer
                         (Node ''TaggedTemplateExpression''
                            [(''tag'', j_identifier (js ''css'')),
                             (''quasi'', templateLiteral [templateElement (js ''bold text'')] [])])])])]"

text \<open>
  A catalog file as in the comment of \<^verbatim>\<open>readTranslations\<close> (transform.ts 119-129):
  the file \<^verbatim>\<open>translations.json\<close> holds
  \<^verbatim>\<open>{"en": {"component": {"hello": "Hello"}}}\<close>, the file \<^verbatim>\<open>broken.json\<close> holds
  text that is not JSON, and there is no other file.
\<close>

definition example_host :: "nat host" where
  "example_host =
     \<lparr>readFileSync = (\<lambda>path.
          if path = js ''translations.json'' then Inr (js ''{\"en\": {\"component\": {\"hello\": \"Hello\"}}}'')
          else if path = js ''broken.json'' then Inr (js ''{\"en\": '')
          else Inl IOError),
      JSON_parse = (\<lambda>data.
          if data = js ''{\"en\": {\"component\": {\"hello\": \"Hello\"}}}''
          then Inr (JObj [(js ''en'', JObj [(js ''component'', JObj [(js ''hello'', JStr (js ''Hello''))])])])
          else Inl SyntaxError)\<rparr>"

text \<open>
  The libraries on the examples: the texts and the names are plain ASCII, which
  normalisation leaves as it is and for which the transliteration table has no entry;
  the printer prints an identifier and a member of an identifier.
\<close>

definition print_simple :: "jsval \<Rightarrow> jsstring" where
  "print_simple e =
     (if check ''MemberExpression'' e
      then str_of (get (get e ''object'') ''name'') @ js ''.'' @ str_of (get (get e ''property'') ''name'')
      else str_of (get e ''name''))"

definition ascii_libs :: libs where
  "ascii_libs =
     \<lparr>nfc = (\<lambda>s. s), charMap = (\<lambda>c. None), toSource = print_simple,
      lowerFirst = lowerFirstASCII\<rparr>"

section \<open>The passes on the store\<close>

text \<open>
  The body of a \<^verbatim>\<open>forEach\<close> changes the tree in place, through the
  \<^verbatim>\<open>NodePath\<close> objects that \<^verbatim>\<open>find\<close> collected before the first change. A path
  keeps the object that held its value when the tree was traversed: \<^verbatim>\<open>replaceWith\<close>
  writes the new node into that object, under the name of the path, whether or not the
  object is still part of the tree. The nodes that the body builds hold the objects they
  are given, not copies (\<^verbatim>\<open>value: expression\<close>, transform.ts 543;
  \<^verbatim>\<open>name: path.value.name\<close>, transform.ts 463; \<^verbatim>\<open>j.returnStatement(functionBody)\<close>,
  transform.ts 345). So a pass is modelled on a store of objects.

  The address of an object of the parsed tree is the path at which the parser put it.
  The store gives each such object with its fields, where a field that holds an object
  holds a reference to it (\<open>HRef\<close>). A node that the transform builds has no path of
  its own in the pass; it is written into the field that receives it, as a value that
  may hold references.
\<close>

datatype hval =
    HRef path
  | HNode string "(string \<times> hval) list"
  | HObj "(string \<times> hval) list"
  | HArr "hval list"
  | HStr jsstring
  | HBool bool
  | HNull
  | HUndefined

type_synonym store = "path \<Rightarrow> hval"

text \<open>The value \<open>v\<close> found at the address \<open>q\<close>, as a field holds it.\<close>

fun link :: "path \<Rightarrow> jsval \<Rightarrow> hval" where
  "link q (Str s) = HStr s"
| "link q (Bool b) = HBool b"
| "link q Null = HNull"
| "link q Undefined = HUndefined"
| "link q v = HRef q"

text \<open>The object at address \<open>p\<close>, when its value in the tree is \<open>v\<close>.\<close>

fun shallow :: "path \<Rightarrow> jsval \<Rightarrow> hval" where
  "shallow p (Node t fs) = HNode t (map (\<lambda>(k, v). (k, link (p @ [PField k]) v)) fs)"
| "shallow p (Obj fs) = HObj (map (\<lambda>(k, v). (k, link (p @ [PField k]) v)) fs)"
| "shallow p (Arr vs) = HArr (map (\<lambda>(i, v). link (p @ [PIndex i]) v) (zip [0..<length vs] vs))"
| "shallow p (Str s) = HStr s"
| "shallow p (Bool b) = HBool b"
| "shallow p Null = HNull"
| "shallow p Undefined = HUndefined"

text \<open>The store of a tree as the parser returned it.\<close>

definition load :: "jsval \<Rightarrow> store" where
  "load root = (\<lambda>p. shallow p (value_at root p))"

text \<open>A tree that the transform has built, as a value without references.\<close>

primrec embed :: "jsval \<Rightarrow> hval" where
  "embed (Node t fs) = HNode t (map (map_prod id embed) fs)"
| "embed (Obj fs) = HObj (map (map_prod id embed) fs)"
| "embed (Arr vs) = HArr (map embed vs)"
| "embed (Str s) = HStr s"
| "embed (Bool b) = HBool b"
| "embed Null = HNull"
| "embed Undefined = HUndefined"

text \<open>
  The tree that a value of the store stands for: every reference is followed. The store
  is not known to be free of cycles, so the reading takes fuel, one unit for each
  reference followed and each level of nesting, and gives \<open>None\<close> when it runs out.
\<close>

fun readback :: "nat \<Rightarrow> store \<Rightarrow> hval \<Rightarrow> jsval option" where
  "readback 0 h v = None"
| "readback (Suc n) h (HRef p) = readback n h (h p)"
| "readback (Suc n) h (HNode t fs) =
     map_option (Node t) (those (map (\<lambda>(k, v). map_option (Pair k) (readback n h v)) fs))"
| "readback (Suc n) h (HObj fs) =
     map_option Obj (those (map (\<lambda>(k, v). map_option (Pair k) (readback n h v)) fs))"
| "readback (Suc n) h (HArr vs) = map_option Arr (those (map (readback n h) vs))"
| "readback (Suc n) h (HStr s) = Some (Str s)"
| "readback (Suc n) h (HBool b) = Some (Bool b)"
| "readback (Suc n) h HNull = Some Null"
| "readback (Suc n) h HUndefined = Some Undefined"

text \<open>The field of an object of the store; the type test on it.\<close>

fun hget :: "hval \<Rightarrow> string \<Rightarrow> hval" where
  "hget (HNode t fs) k = (case map_of fs k of Some v \<Rightarrow> v | None \<Rightarrow> HUndefined)"
| "hget (HObj fs) k = (case map_of fs k of Some v \<Rightarrow> v | None \<Rightarrow> HUndefined)"
| "hget v k = HUndefined"

fun hset :: "hval \<Rightarrow> string \<Rightarrow> hval \<Rightarrow> hval" where
  "hset (HNode t fs) k v = HNode t (AList.update k v fs)"
| "hset (HObj fs) k v = HObj (AList.update k v fs)"
| "hset w k v = w"

fun hcheck :: "string \<Rightarrow> hval \<Rightarrow> bool" where
  "hcheck T (HNode t fs) = isSupertypeOf T t"
| "hcheck T v = False"


text \<open>The object that a field value denotes.\<close>

fun deref :: "store \<Rightarrow> hval \<Rightarrow> hval" where
  "deref h (HRef q) = h q"
| "deref h v = v"

text \<open>\<^verbatim>\<open>array.indexOf(v)\<close>\<close>

fun indexOf :: "hval \<Rightarrow> hval list \<Rightarrow> nat option" where
  "indexOf v [] = None"
| "indexOf v (w # ws) = (if w = v then Some 0 else map_option Suc (indexOf v ws))"

text \<open>
  \<^verbatim>\<open>j(path).replaceWith(node)\<close>, that is \<^verbatim>\<open>path.replace(node)\<close> of ast-types. The
  object written to is the value of the parent path, as the traversal found it. In an
  array the node takes the place of the value of the path (at the index of the path, or
  where \<^verbatim>\<open>indexOf\<close> finds the value when the index is out of date; the call throws
  when the array does not hold it). In an object the field named by the path receives the
  node.
\<close>

definition replace_h :: "store \<Rightarrow> path \<Rightarrow> hval \<Rightarrow> store option" where
  "replace_h h p new =
     (if p = [] then None
      else
        (case (h (butlast p), last p) of
           (HArr es, PIndex i) \<Rightarrow>
             (if i < length es \<and> es ! i = HRef p then Some (h(butlast p := HArr (es[i := new])))
              else (case indexOf (HRef p) es of
                      Some j \<Rightarrow> Some (h(butlast p := HArr (es[j := new])))
                    | None \<Rightarrow> None))
         | (HNode t fs, PField k) \<Rightarrow> Some (h(butlast p := HNode t (AList.update k new fs)))
         | (HObj fs, PField k) \<Rightarrow> Some (h(butlast p := HObj (AList.update k new fs)))
         | _ \<Rightarrow> None))"

text \<open>
  The address of the object reached from the object at \<open>q\<close> by the steps of a path of the
  tree as it is now, when every step leads to an object of the parsed tree.
\<close>

fun hchild :: "hval \<Rightarrow> step \<Rightarrow> hval" where
  "hchild (HNode t fs) (PField k) = (case map_of fs k of Some v \<Rightarrow> v | None \<Rightarrow> HUndefined)"
| "hchild (HObj fs) (PField k) = (case map_of fs k of Some v \<Rightarrow> v | None \<Rightarrow> HUndefined)"
| "hchild (HArr vs) (PIndex i) = (if i < length vs then vs ! i else HUndefined)"
| "hchild v s = HUndefined"

fun walk :: "store \<Rightarrow> path \<Rightarrow> path \<Rightarrow> path option" where
  "walk h q [] = Some q"
| "walk h q (s # ss) = (case hchild (h q) s of HRef q' \<Rightarrow> walk h q' ss | _ \<Rightarrow> None)"

text \<open>
  \<^verbatim>\<open>ensureTranslationImport\<close> (transform.ts 266-283) on the store. Both calls of
  \<^verbatim>\<open>root.find\<close> traverse the tree as it is now; the new declaration goes into the
  array that holds the first import declaration, before it.
\<close>

definition ensureTranslationImport_h :: "nat \<Rightarrow> jsstring \<Rightarrow> store \<Rightarrow> store option" where
  "ensureTranslationImport_h fuel importPackage h =
     (case readback fuel h (HRef []) of
        None \<Rightarrow> None
      | Some root \<Rightarrow>
          (let hasImport =
                 (filter (\<lambda>path. get (get (value_at root path) ''source'') ''value'' = Str importPackage)
                    (find ''ImportDeclaration'' root) \<noteq> [])
           in if \<not> hasImport then
                (let importDecl =
                       j_importDeclaration [j_importSpecifier (j_identifier (js ''useTranslation''))]
                         (j_literal importPackage)
                 in case take 1 (find ''ImportDeclaration'' root) of
                      [] \<Rightarrow> Some h
                    | path # _ \<Rightarrow>
                        (if path = [] then Some h
                         else (case (walk h [] (butlast path), last path) of
                                 (Some c, PIndex i) \<Rightarrow>
                                   (case h c of
                                      HArr es \<Rightarrow> Some (h(c := HArr (take i es @ embed importDecl # drop i es)))
                                    | _ \<Rightarrow> Some h)
                               | _ \<Rightarrow> Some h)))
              else Some h))"

text \<open>
  \<^verbatim>\<open>ensureTranslationHook\<close> (transform.ts 304-350) on the store, for the function at
  the address \<open>fn\<close>. The search for the call traverses the function as it is now. A block
  body gets the hook at the head of its array of statements; any other body is put,
  as the object it is, into the return statement of a new block, which becomes the
  \<^verbatim>\<open>body\<close> of the function.
\<close>

definition ensureTranslationHook_h :: "nat \<Rightarrow> store \<Rightarrow> path \<Rightarrow> store option" where
  "ensureTranslationHook_h fuel h fn =
     (case readback fuel h (HRef fn) of
        None \<Rightarrow> None
      | Some node \<Rightarrow>
          (if \<not> hasHook node then
             (if check ''FunctionDeclaration'' node \<or> check ''ArrowFunctionExpression'' node then
                (let functionBody = hget (h fn) ''body'' in
                 if hcheck ''BlockStatement'' (deref h functionBody) then
                   (case functionBody of
                      HRef b \<Rightarrow>
                        (case hget (h b) ''body'' of
                           HRef a \<Rightarrow>
                             (case h a of
                                HArr es \<Rightarrow> Some (h(a := HArr (embed hook # es)))
                              | _ \<Rightarrow> Some h)
                         | _ \<Rightarrow> Some h)
                    | _ \<Rightarrow> Some h)
                 else
                   Some (h(fn := hset (h fn) ''body''
                      (HNode ''BlockStatement''
                         [(''body'', HArr [embed hook,
                                           HNode ''ReturnStatement'' [(''argument'', functionBody)]])]))))
              else Some h)
           else Some h))"

text \<open>
  What the body of a \<^verbatim>\<open>forEach\<close> does once it has computed its rewrite (transform.ts
  385-401, 451-470 and 556-575): it stores the entry, ensures the import and the hook,
  and replaces the node of the path by the node it has built (\<open>new\<close>).
\<close>

datatype run_error = Thrown jserror | OutOfFuel

definition apply_rewrite ::
    "nat \<Rightarrow> jsstring \<Rightarrow> path \<Rightarrow> rewrite \<Rightarrow> hval \<Rightarrow> store \<times> catalog \<Rightarrow> run_error + store \<times> catalog" where
  "apply_rewrite fuel importPackage path r new st =
     (case ensureTranslationImport_h fuel importPackage (fst st) of
        None \<Rightarrow> Inl OutOfFuel
      | Some h1 \<Rightarrow>
          (case ensureTranslationHook_h fuel h1 (functionAST r) of
             None \<Rightarrow> Inl OutOfFuel
           | Some h2 \<Rightarrow>
               (case replace_h h2 path new of
                  None \<Rightarrow> Inl (Thrown TypeError)
                | Some h3 \<Rightarrow>
                    Inr (h3, addTranslation (snd st) (componentName r) (entry_key r) (entry_value r)))))"

text \<open>
  The bodies of a pass: the body runs on the candidates in the order in which
  \<^verbatim>\<open>find\<close> returned them, on the store and the catalog that the body before it has
  left. The candidates and what the body computes for each are read from the tree at the
  start of the pass: the filter runs on all paths before the first body, and when the
  body reaches a candidate nothing inside its node has been changed, no ancestor has
  become or ceased to be a function, and no function has changed its name.
\<close>

definition run_bodies ::
    "nat \<Rightarrow> jsstring \<Rightarrow> (path \<Rightarrow> jserror + (rewrite \<times> hval) option) \<Rightarrow> path list \<Rightarrow>
     store \<times> catalog \<Rightarrow> run_error + store \<times> catalog" where
  "run_bodies fuel importPackage body candidates st =
     foldl
       (\<lambda>st path.
          case st of
            Inl e \<Rightarrow> Inl e
          | Inr s \<Rightarrow>
              (case body path of
                 Inl e \<Rightarrow> Inl (Thrown e)
               | Inr None \<Rightarrow> Inr s
               | Inr (Some (r, new)) \<Rightarrow> apply_rewrite fuel importPackage path r new s))
       (Inr st) candidates"

text \<open>
  The tree that the next pass (or the printer) finds: what the root of the store stands
  for when the bodies have run.
\<close>

definition read_root :: "nat \<Rightarrow> run_error + store \<times> catalog \<Rightarrow> run_error + jsval \<times> catalog" where
  "read_root fuel res =
     (case res of
        Inl e \<Rightarrow> Inl e
      | Inr (h, tr) \<Rightarrow>
          (case readback fuel h (HRef []) of
             None \<Rightarrow> Inl OutOfFuel
           | Some root' \<Rightarrow> Inr (root', tr)))"

text \<open>
  \<^verbatim>\<open>transformJSXText\<close> (transform.ts 367-403): the candidates, what the body hands
  to \<^verbatim>\<open>replaceWith\<close>, the objects and the catalog after the bodies, and the pass.
\<close>

definition transformJSXText_candidates :: "jsval \<Rightarrow> path list" where
  "transformJSXText_candidates root = filter (transformJSXText_filter root) (find ''JSXText'' root)"

definition transformJSXText_body :: "libs \<Rightarrow> jsval \<Rightarrow> path \<Rightarrow> jserror + (rewrite \<times> hval) option" where
  "transformJSXText_body E root path =
     Inr (map_option (\<lambda>r. (r, embed (replacement r))) (transformJSXText_rewrite E root path))"

definition transformJSXText_bodies ::
    "nat \<Rightarrow> libs \<Rightarrow> jsstring \<Rightarrow> jsval \<times> catalog \<Rightarrow> run_error + store \<times> catalog" where
  "transformJSXText_bodies fuel E importPackage ctx =
     run_bodies fuel importPackage (transformJSXText_body E (fst ctx))
       (transformJSXText_candidates (fst ctx)) (load (fst ctx), snd ctx)"

definition transformJSXText :: "nat \<Rightarrow> libs \<Rightarrow> jsstring \<Rightarrow> jsval \<times> catalog \<Rightarrow> run_error + jsval \<times> catalog" where
  "transformJSXText fuel E importPackage ctx =
     read_root fuel (transformJSXText_bodies fuel E importPackage ctx)"

text \<open>
  \<^verbatim>\<open>transformJSXAttributes\<close> (transform.ts 419-472). The new attribute holds the name
  object of the old one.
\<close>

definition transformJSXAttributes_candidates :: "jsval \<Rightarrow> path list" where
  "transformJSXAttributes_candidates root =
     filter (transformJSXAttributes_filter root) (find ''JSXAttribute'' root)"

definition transformJSXAttributes_body :: "libs \<Rightarrow> jsval \<Rightarrow> path \<Rightarrow> jserror + (rewrite \<times> hval) option" where
  "transformJSXAttributes_body E root path =
     Inr (map_option
            (\<lambda>r. (r, hset (embed (replacement r)) ''name''
                        (link (path @ [PField ''name'']) (get (value_at root path) ''name''))))
            (transformJSXAttributes_rewrite E root path))"

definition transformJSXAttributes_bodies ::
    "nat \<Rightarrow> libs \<Rightarrow> jsstring \<Rightarrow> jsval \<times> catalog \<Rightarrow> run_error + store \<times> catalog" where
  "transformJSXAttributes_bodies fuel E importPackage ctx =
     run_bodies fuel importPackage (transformJSXAttributes_body E (fst ctx))
       (transformJSXAttributes_candidates (fst ctx)) (load (fst ctx), snd ctx)"

definition transformJSXAttributes :: "nat \<Rightarrow> libs \<Rightarrow> jsstring \<Rightarrow> jsval \<times> catalog \<Rightarrow> run_error + jsval \<times> catalog" where
  "transformJSXAttributes fuel E importPackage ctx =
     read_root fuel (transformJSXAttributes_bodies fuel E importPackage ctx)"

text \<open>
  The call that replaces a template literal, with each property of its object holding
  the expression object of the template (\<^verbatim>\<open>path.value.expressions[i]\<close>) as its value.
\<close>

fun share_values :: "path \<Rightarrow> nat \<Rightarrow> jsval list \<Rightarrow> hval list" where
  "share_values path i [] = []"
| "share_values path i (property # properties) =
     hset (embed property) ''value''
       (link (path @ [PField ''expressions'', PIndex i]) (get property ''value''))
     # share_values path (Suc i) properties"

definition share_call :: "path \<Rightarrow> jsval \<Rightarrow> hval" where
  "share_call path call =
     (case elems (get call ''arguments'') of
        [key] \<Rightarrow> embed call
      | key # object # _ \<Rightarrow>
          HNode ''CallExpression''
            [(''callee'', embed (get call ''callee'')),
             (''arguments'',
                HArr [embed key,
                      HNode ''ObjectExpression''
                        [(''properties'', HArr (share_values path 0 (elems (get object ''properties''))))]])]
      | [] \<Rightarrow> embed call)"

text \<open>\<^verbatim>\<open>transformTemplateLiterals\<close> (transform.ts 487-577).\<close>

definition transformTemplateLiterals_body :: "libs \<Rightarrow> jsval \<Rightarrow> path \<Rightarrow> jserror + (rewrite \<times> hval) option" where
  "transformTemplateLiterals_body E root path =
     (case transformTemplateLiterals_rewrite E root path of
        Inl e \<Rightarrow> Inl e
      | Inr None \<Rightarrow> Inr None
      | Inr (Some r) \<Rightarrow> Inr (Some (r, share_call path (replacement r))))"

definition transformTemplateLiterals_bodies ::
    "nat \<Rightarrow> libs \<Rightarrow> jsstring \<Rightarrow> jsval \<times> catalog \<Rightarrow> run_error + store \<times> catalog" where
  "transformTemplateLiterals_bodies fuel E importPackage ctx =
     run_bodies fuel importPackage (transformTemplateLiterals_body E (fst ctx))
       (transformTemplateLiterals_candidates (fst ctx)) (load (fst ctx), snd ctx)"

definition transformTemplateLiterals :: "nat \<Rightarrow> libs \<Rightarrow> jsstring \<Rightarrow> jsval \<times> catalog \<Rightarrow> run_error + jsval \<times> catalog" where
  "transformTemplateLiterals fuel E importPackage ctx =
     read_root fuel (transformTemplateLiterals_bodies fuel E importPackage ctx)"


text \<open>
  The three passes of \<^verbatim>\<open>transform\<close> in their order (transform.ts 607-610), on the
  tree and the catalog of the context.
\<close>

definition transform_passes :: "nat \<Rightarrow> libs \<Rightarrow> jsstring \<Rightarrow> jsval \<times> catalog \<Rightarrow> run_error + jsval \<times> catalog" where
  "transform_passes fuel E importPackage ctx =
     (case transformJSXText fuel E importPackage ctx of
        Inl e \<Rightarrow> Inl e
      | Inr ctx1 \<Rightarrow>
          (case transformJSXAttributes fuel E importPackage ctx1 of
             Inl e \<Rightarrow> Inl e
           | Inr ctx2 \<Rightarrow> transformTemplateLiterals fuel E importPackage ctx2))"

text \<open>
  A function that returns a template literal whose only expression is again a template
  literal: \<^verbatim>\<open>function F() { return `a ${`b`}` }\<close>
\<close>

definition Nested_file :: jsval where
  "Nested_file =
     sourceFile
       [functionDeclaration (js ''F'')
          (j_blockStatement
             [j_returnStatement
                (templateLiteral [templateElement (js ''a ''), templateElement (js '''')]
                   [templateLiteral [templateElement (js ''b'')] []])])]"

text \<open>
  What the passes make of \<open>Nested_file\<close>: after the first run the outer template is a
  call that still holds the inner template literal,
  \<^verbatim>\<open>function F() { const { t } = useTranslation(); return t('f.a', { var1: `b` }) }\<close>,
  and after the second run the inner template is a call as well,
  \<^verbatim>\<open>... return t('f.a', { var1: t('f.b') }) }\<close>.
\<close>

definition Nested_once :: jsval where
  "Nested_once =
     sourceFile
       [functionDeclaration (js ''F'')
          (j_blockStatement
             [hook,
              j_returnStatement
                (t_call (js ''f'') (js ''a'')
                   [j_objectExpression
                      [j_objectProperty (j_identifier (js ''var1''))
                         (templateLiteral [templateElement (js ''b'')] []) False]])])]"

definition Nested_twice :: jsval where
  "Nested_twice =
     sourceFile
       [functionDeclaration (js ''F'')
          (j_blockStatement
             [hook,
              j_returnStatement
                (t_call (js ''f'') (js ''a'')
                   [j_objectExpression
                      [j_objectProperty (j_identifier (js ''var1''))
                         (t_call (js ''f'') (js ''b'') []) False]])])]"

definition Nested_catalog :: catalog where
  "Nested_catalog = [(js ''f'', [(js ''a'', js ''a {{var1}}''), (js ''b'', js ''b'')])]"

text \<open>
  What the passes make of \<open>Welcome_react_file\<close>:
  \<^verbatim>\<open>import { useTranslation } from 'react-i18next'; import React from 'react';
  function Welcome() { const { t } = useTranslation(); return <div>{t('welcome.hello-world')}</div> }\<close>
\<close>

definition Welcome_react_out :: jsval where
  "Welcome_react_out =
     sourceFile
       [j_importDeclaration [j_importSpecifier (j_identifier (js ''useTranslation''))]
          (j_literal (js ''react-i18next'')),
        j_importDeclaration [Node ''ImportDefaultSpecifier'' [(''local'', j_identifier (js ''React''))]]
          (stringLiteral (js ''react'')),
        functionDeclaration (js ''Welcome'')
          (j_blockStatement
             [hook,
              j_returnStatement
                (jsxElement (js ''div'') []
                   [j_jsxExpressionContainer (t_call (js ''welcome'') (js ''hello-world'') [])])])]"

definition Welcome_catalog :: catalog where
  "Welcome_catalog = [(js ''welcome'', [(js ''hello-world'', js ''Hello World'')])]"









text \<open>
  A function that calls the hook through an optional call:
  \<^verbatim>\<open>function Lazy() { useTranslation?.(); return <div>Hello</div> }\<close>
\<close>

definition Lazy_function :: jsval where
  "Lazy_function =
     functionDeclaration (js ''Lazy'')
       (j_blockStatement
          [Node ''ExpressionStatement''
             [(''expression'',
                 Node ''OptionalCallExpression''
                   [(''callee'', j_identifier (js ''useTranslation'')), (''arguments'', Arr []),
                    (''optional'', Bool True)])],
           j_returnStatement (jsxElement (js ''div'') [] [jsxText (js ''Hello'')])])"




section \<open>Properties of the text classifier\<close>

lemma set_split_chars: "set (split_chars s) = (\<lambda>c. [c]) ` set s"
  by (simp add: split_chars_def)

lemma set_SEPARATORS: "set SEPARATORS = insert [] ((\<lambda>c. [c]) ` set (js '' -_''))"
  by (auto simp: SEPARATORS_def js_def)

lemma TRANSLATION_BLACKLIST_units:
  "set TRANSLATION_BLACKLIST =
     insert [] ((\<lambda>c. [c]) `
       set (NUMBERS @ CURRENCIES @ PUNCTUATION @ MATH @ BRACKETS @ SPECIAL @ js '' -_''))"
  by (simp add: TRANSLATION_BLACKLIST_def set_split_chars set_SEPARATORS image_Un Un_assoc)

lemma TRANSLATION_BLACKLIST_length: "b \<in> set TRANSLATION_BLACKLIST \<Longrightarrow> length b \<le> 1"
  unfolding TRANSLATION_BLACKLIST_units by auto

lemma trim_not_ws: "\<not> isWhiteSpace c \<Longrightarrow> \<not> isWhiteSpace (last (c # cs)) \<Longrightarrow> trim (c # cs) = c # cs"
proof -
  assume c: "\<not> isWhiteSpace c" and l: "\<not> isWhiteSpace (last (c # cs))"
  have "dropWhile isWhiteSpace (rev (c # cs)) = rev (c # cs)"
    using l by (metis dropWhile_eq_self_iff hd_rev list.distinct(1))
  then show ?thesis using c by (simp add: trim_def)
qed

lemma trim_ws_only: "\<forall>c \<in> set s. isWhiteSpace c \<Longrightarrow> trim s = []"
proof -
  assume "\<forall>c \<in> set s. isWhiteSpace c"
  then have d: "dropWhile isWhiteSpace s = []" by simp
  show ?thesis unfolding trim_def d by simp
qed

text \<open>
  Claim C1, as the code has it. The classifier rejects a fragment exactly when its trimmed
  form is empty or is one single denied code unit (a digit, a currency sign, a
  punctuation mark, an operator, a bracket, a special character or one of the
  separators), so every fragment whose trimmed form has two code units or more is
  translatable. The empty string, each single digit, \<^verbatim>\<open>$\<close> and a run of spaces are
  rejected; \<^verbatim>\<open>Hello World\<close> and \<^verbatim>\<open>Price: $5\<close> are accepted.
\<close>

theorem isTranslatable_exact:
  "(\<not> isTranslatable text \<longleftrightarrow>
      trim text = [] \<or>
      (\<exists>c \<in> set (NUMBERS @ CURRENCIES @ PUNCTUATION @ MATH @ BRACKETS @ SPECIAL @ js '' -_'').
         trim text = [c])) \<and>
   (2 \<le> length (trim text) \<longrightarrow> isTranslatable text) \<and>
   \<not> isTranslatable (js '''') \<and>
   (\<forall>d \<in> set NUMBERS. \<not> isTranslatable [d]) \<and>
   \<not> isTranslatable (js ''$'') \<and>
   \<not> isTranslatable (js ''   '') \<and>
   isTranslatable (js ''Hello World'') \<and>
   isTranslatable (js ''Price: $5'')"
proof -
  have a: "\<not> isTranslatable s \<longleftrightarrow>
      trim s = [] \<or>
      (\<exists>c \<in> set (NUMBERS @ CURRENCIES @ PUNCTUATION @ MATH @ BRACKETS @ SPECIAL @ js '' -_'').
         trim s = [c])" for s
    unfolding isTranslatable_def TRANSLATION_BLACKLIST_units by blast
  have b: "2 \<le> length (trim s) \<longrightarrow> isTranslatable s" for s
    unfolding isTranslatable_def using TRANSLATION_BLACKLIST_length by fastforce
  have c1: "\<not> isTranslatable (js '''')"
    using a [of "js ''''"] by (simp add: js_def trim_def)
  have "trim (js ''$'') = [0x24]"
    by (simp add: js_def trim_def isWhiteSpace_def)
  moreover have "0x24 \<in> set CURRENCIES" by (simp add: CURRENCIES_def)
  ultimately have c2: "\<not> isTranslatable (js ''$'')"
    using a [of "js ''$''"] by simp
  have "trim (js ''   '') = []"
    by (rule trim_ws_only) (simp add: js_def isWhiteSpace_def)
  then have c3: "\<not> isTranslatable (js ''   '')"
    using a [of "js ''   ''"] by simp
  have d: "\<forall>d \<in> set NUMBERS. \<not> isTranslatable [d]"
  proof
    fix d assume d: "d \<in> set NUMBERS"
    then have "\<not> isWhiteSpace d" by (auto simp: NUMBERS_def js_def isWhiteSpace_def)
    then have "trim [d] = [d]" using trim_not_ws [of d "[]"] by simp
    with d show "\<not> isTranslatable [d]" using a [of "[d]"] by simp
  qed
  have "trim (js ''Hello World'') = js ''Hello World''"
    unfolding js_def by (simp add: trim_not_ws isWhiteSpace_def)
  then have e1: "isTranslatable (js ''Hello World'')"
    using b [of "js ''Hello World''"] by (simp add: js_def)
  have "trim (js ''Price: $5'') = js ''Price: $5''"
    unfolding js_def by (simp add: trim_not_ws isWhiteSpace_def)
  then have e2: "isTranslatable (js ''Price: $5'')"
    using b [of "js ''Price: $5''"] by (simp add: js_def)
  from a [of "text"] b [of "text"] c1 c2 c3 d e1 e2 show ?thesis by blast
qed

text \<open>The theorem at the two digits \<^verbatim>\<open>12\<close>.\<close>

theorem isTranslatable_exact_witness:
  "2 \<le> length (trim (js ''12'')) \<and> isTranslatable (js ''12'')"
proof -
  have "trim (js ''12'') = js ''12''"
    unfolding js_def by (simp add: trim_not_ws isWhiteSpace_def)
  then have "2 \<le> length (trim (js ''12''))" by (simp add: js_def)
  then show ?thesis using isTranslatable_exact [of "js ''12''"] by blast
qed

text \<open>
  Claim C1 as stated says that \<^verbatim>\<open>isTranslatable("42")\<close> is false. The denylist
  holds single digits only, and the code accepts \<^verbatim>\<open>42\<close>.
\<close>

theorem isTranslatable_42_counterexample: "isTranslatable (js ''42'')"
proof -
  have "trim (js ''42'') = js ''42''"
    unfolding js_def by (simp add: trim_not_ws isWhiteSpace_def)
  moreover have "js ''42'' \<notin> set TRANSLATION_BLACKLIST"
    unfolding TRANSLATION_BLACKLIST_units by (auto simp: js_def)
  ultimately show ?thesis by (simp add: isTranslatable_def)
qed

section \<open>Properties of the scope resolver\<close>

lemma prefix_parent:
  "p \<noteq> [] \<Longrightarrow> prefix q p \<longleftrightarrow> q = p \<or> prefix q (butlast p)"
  by (metis append_butlast_last_id prefix_snoc)

lemma getClosestFunctionAST_None:
  "getClosestFunctionAST root pp = None \<Longrightarrow> pp = Some p \<Longrightarrow> prefix q p \<Longrightarrow>
     \<not> (check ''FunctionDeclaration'' (value_at root q) \<or>
        check ''ArrowFunctionExpression'' (value_at root q))"
proof (induction root pp arbitrary: p rule: getClosestFunctionAST.induct)
  case (1 root)
  then show ?case by simp
next
  case (2 root p')
  from "2.prems" have p: "p' = p" by simp
  let ?F = "check ''FunctionDeclaration'' (value_at root p) \<or>
            check ''ArrowFunctionExpression'' (value_at root p)"
  from "2.prems"(1) p have nf: "\<not> ?F" by (auto split: if_splits)
  from "2.prems"(1) p nf have rec: "getClosestFunctionAST root (parentPath p) = None" by simp
  show ?case
  proof (cases "q = p")
    case True
    with nf show ?thesis by simp
  next
    case False
    with "2.prems"(3) have pne: "p \<noteq> []" by auto
    with False "2.prems"(3) have "prefix q (butlast p)" by (simp add: prefix_parent)
    moreover have "parentPath p = Some (butlast p)" using pne by (simp add: parentPath_def)
    ultimately show ?thesis using "2.IH"[of "butlast p"] nf rec p by simp
  qed
qed

lemma getClosestFunctionAST_Some:
  "getClosestFunctionAST root pp = Some q \<Longrightarrow> pp = Some p \<Longrightarrow>
     prefix q p \<and>
     (check ''FunctionDeclaration'' (value_at root q) \<or>
      check ''ArrowFunctionExpression'' (value_at root q)) \<and>
     (\<forall>r. prefix r p \<and> strict_prefix q r \<longrightarrow>
        \<not> (check ''FunctionDeclaration'' (value_at root r) \<or>
           check ''ArrowFunctionExpression'' (value_at root r)))"
proof (induction root pp arbitrary: p rule: getClosestFunctionAST.induct)
  case (1 root)
  then show ?case by simp
next
  case (2 root p')
  from "2.prems" have p: "p' = p" by simp
  let ?F = "\<lambda>v. check ''FunctionDeclaration'' v \<or> check ''ArrowFunctionExpression'' v"
  show ?case
  proof (cases "?F (value_at root p)")
    case True
    with "2.prems"(1) p have q: "q = p" by simp
    have "\<And>r. prefix r p \<Longrightarrow> strict_prefix p r \<Longrightarrow> False"
      by (meson prefix_order.leD)
    with True q show ?thesis by blast
  next
    case False
    with "2.prems"(1) p have rec: "getClosestFunctionAST root (parentPath p) = Some q" by simp
    have pne: "p \<noteq> []"
    proof
      assume "p = []"
      then have "parentPath p = None" by (simp add: parentPath_def)
      with rec show False by simp
    qed
    then have pp: "parentPath p = Some (butlast p)" by (simp add: parentPath_def)
    have ih: "prefix q (butlast p) \<and> ?F (value_at root q) \<and>
      (\<forall>r. prefix r (butlast p) \<and> strict_prefix q r \<longrightarrow> \<not> ?F (value_at root r))"
      using "2.IH"[of "butlast p"] False p rec pp by blast
    have a: "prefix q p" using ih pne prefix_parent by blast
    have b: "\<not> ?F (value_at root r)" if r: "prefix r p" "strict_prefix q r" for r
    proof (cases "r = p")
      case True
      with False show ?thesis by simp
    next
      case ne: False
      with r(1) pne have "prefix r (butlast p)" using prefix_parent by blast
      with r(2) ih show ?thesis by blast
    qed
    from a b ih show ?thesis by blast
  qed
qed

lemmas tree_eval = value_at_def parentPath_def sourceFile_def functionDeclaration_def
  functionExpression_def
  arrowFunctionExpression_def constDeclaration_def jsxElement_def jsxSelfClosingElement_def
  jsxText_def jsxIdentifier_def
  stringLiteral_def templateElement_def templateLiteral_def memberExpression_def
  j_identifier_def j_literal_def j_callExpression_def j_jsxExpressionContainer_def
  j_jsxAttribute_def j_objectProperty_def j_objectExpression_def j_objectPattern_def
  j_variableDeclarator_def j_variableDeclaration_def j_blockStatement_def
  j_returnStatement_def j_importSpecifier_def j_importDeclaration_def

text \<open>
  Claim C2, as the code has it. From the path \<open>p\<close> of a node the resolver returns the longest prefix of
  \<open>p\<close> (the node itself or its nearest ancestor) whose value is a function declaration
  or an arrow function expression, and null exactly when no prefix of \<open>p\<close> up to the root
  has such a value. The name of an arrow function is the name of the \<^verbatim>\<open>id\<close> of its
  parent (the declarator that binds it), the name of a declaration is that of its own
  \<^verbatim>\<open>id\<close>, and where that name is undefined or null the name is the sentinel
  \<^verbatim>\<open>UnknownFunction\<close>.
\<close>

theorem getClosestFunctionAST_nearest:
  "(getClosestFunctionAST root (Some p) = None \<longleftrightarrow>
      (\<forall>q. prefix q p \<longrightarrow>
         \<not> (check ''FunctionDeclaration'' (value_at root q) \<or>
            check ''ArrowFunctionExpression'' (value_at root q)))) \<and>
   (getClosestFunctionAST root (Some p) = Some fn \<longrightarrow>
      prefix fn p \<and>
      (check ''FunctionDeclaration'' (value_at root fn) \<or>
       check ''ArrowFunctionExpression'' (value_at root fn)) \<and>
      (\<forall>r. prefix r p \<and> strict_prefix fn r \<longrightarrow>
         \<not> (check ''FunctionDeclaration'' (value_at root r) \<or>
            check ''ArrowFunctionExpression'' (value_at root r))) \<and>
      (check ''ArrowFunctionExpression'' (value_at root fn) \<longrightarrow>
         (get (get (path_value root (parentPath fn)) ''id'') ''name'' = Str n \<longrightarrow>
            getFunctionName root fn = n) \<and>
         (get (get (path_value root (parentPath fn)) ''id'') ''name'' \<in> {Undefined, Null} \<longrightarrow>
            getFunctionName root fn = js ''UnknownFunction'')) \<and>
      (check ''FunctionDeclaration'' (value_at root fn) \<longrightarrow>
         (get (get (value_at root fn) ''id'') ''name'' = Str n \<longrightarrow>
            getFunctionName root fn = n) \<and>
         (get (get (value_at root fn) ''id'') ''name'' \<in> {Undefined, Null} \<longrightarrow>
            getFunctionName root fn = js ''UnknownFunction'')))"
proof -
  let ?F = "\<lambda>v. check ''FunctionDeclaration'' v \<or> check ''ArrowFunctionExpression'' v"
  have none: "getClosestFunctionAST root (Some p) = None \<longleftrightarrow>
      (\<forall>q. prefix q p \<longrightarrow> \<not> ?F (value_at root q))"
  proof
    assume "getClosestFunctionAST root (Some p) = None"
    then show "\<forall>q. prefix q p \<longrightarrow> \<not> ?F (value_at root q)"
      using getClosestFunctionAST_None by blast
  next
    assume a: "\<forall>q. prefix q p \<longrightarrow> \<not> ?F (value_at root q)"
    show "getClosestFunctionAST root (Some p) = None"
    proof (rule ccontr)
      assume "getClosestFunctionAST root (Some p) \<noteq> None"
      then obtain q where "getClosestFunctionAST root (Some p) = Some q" by auto
      then have "prefix q p \<and> ?F (value_at root q)"
        using getClosestFunctionAST_Some by blast
      with a show False by blast
    qed
  qed
  have arrow: "check ''ArrowFunctionExpression'' v \<Longrightarrow> \<not> check ''FunctionDeclaration'' v" for v
    by (cases v) auto
  have names:
    "check ''ArrowFunctionExpression'' (value_at root fn) \<longrightarrow>
       (get (get (path_value root (parentPath fn)) ''id'') ''name'' = Str n \<longrightarrow>
          getFunctionName root fn = n) \<and>
       (get (get (path_value root (parentPath fn)) ''id'') ''name'' \<in> {Undefined, Null} \<longrightarrow>
          getFunctionName root fn = js ''UnknownFunction'')"
    "check ''FunctionDeclaration'' (value_at root fn) \<longrightarrow>
       (get (get (value_at root fn) ''id'') ''name'' = Str n \<longrightarrow>
          getFunctionName root fn = n) \<and>
       (get (get (value_at root fn) ''id'') ''name'' \<in> {Undefined, Null} \<longrightarrow>
          getFunctionName root fn = js ''UnknownFunction'')"
    using arrow by (auto simp: getFunctionName_def)
  from none names getClosestFunctionAST_Some [of root "Some p" fn p]
  show ?thesis by blast
qed

text \<open>
  The theorem at the attribute of \<^verbatim>\<open>const Badge = () => <img alt="Logo" />\<close>: the
  resolver stops at the arrow function, whose name is that of the declarator.
\<close>

theorem getClosestFunctionAST_nearest_witness:
  "getClosestFunctionAST Badge_file
     (Some [PField ''program'', PField ''body'', PIndex 0, PField ''declarations'', PIndex 0,
            PField ''init'', PField ''body'', PField ''openingElement'', PField ''attributes'',
            PIndex 0])
     = Some [PField ''program'', PField ''body'', PIndex 0, PField ''declarations'', PIndex 0,
             PField ''init''] \<and>
   check ''ArrowFunctionExpression''
     (value_at Badge_file [PField ''program'', PField ''body'', PIndex 0, PField ''declarations'',
        PIndex 0, PField ''init'']) \<and>
   getFunctionName Badge_file
     [PField ''program'', PField ''body'', PIndex 0, PField ''declarations'', PIndex 0,
      PField ''init''] = js ''Badge''"
proof -
  let ?p = "[PField ''program'', PField ''body'', PIndex 0, PField ''declarations'', PIndex 0,
            PField ''init'', PField ''body'', PField ''openingElement'', PField ''attributes'',
            PIndex 0]"
  let ?fn = "[PField ''program'', PField ''body'', PIndex 0, PField ''declarations'', PIndex 0,
             PField ''init'']"
  have c: "getClosestFunctionAST Badge_file (Some ?p) = Some ?fn"
    by (simp add: Badge_file_def tree_eval)
  have a: "check ''ArrowFunctionExpression'' (value_at Badge_file ?fn)"
    by (simp add: Badge_file_def tree_eval)
  have i: "get (get (path_value Badge_file (parentPath ?fn)) ''id'') ''name'' = Str (js ''Badge'')"
    by (simp add: Badge_file_def tree_eval)
  from c a i show ?thesis
    using getClosestFunctionAST_nearest [of Badge_file ?p ?fn "js ''Badge''"] by blast
qed

text \<open>
  Claim C2 as stated says that the resolver stops at the nearest enclosing function-valued
  expression. It stops at arrow functions only: in
  \<^verbatim>\<open>const Legacy = function () { return <div>Hello World</div> }\<close> the text lies in a
  \<^verbatim>\<open>function\<close> expression bound to a declarator, the resolver passes it like any
  other ancestor, reaches the root and returns null.
\<close>

theorem getClosestFunctionAST_function_expression_counterexample:
  "check ''FunctionExpression''
     (value_at Legacy_file [PField ''program'', PField ''body'', PIndex 0, PField ''declarations'',
        PIndex 0, PField ''init'']) \<and>
   check ''JSXText''
     (value_at Legacy_file [PField ''program'', PField ''body'', PIndex 0, PField ''declarations'',
        PIndex 0, PField ''init'', PField ''body'', PField ''body'', PIndex 0, PField ''argument'',
        PField ''children'', PIndex 0]) \<and>
   getClosestFunctionAST Legacy_file
     (Some [PField ''program'', PField ''body'', PIndex 0, PField ''declarations'', PIndex 0,
            PField ''init'', PField ''body'', PField ''body'', PIndex 0, PField ''argument'',
            PField ''children'', PIndex 0]) = None"
  by (simp add: Legacy_file_def tree_eval)

section \<open>Properties of the key deriver\<close>

lemma toLowerCaseUnit_slug: "isAlnum c \<or> c = 0x2D \<Longrightarrow> isSlugUnit (toLowerCaseUnit c)"
  unfolding isAlnum_def isSlugUnit_def toLowerCaseUnit_def
  by (auto simp: word_le_nat_alt unat_word_ariths word_less_nat_alt)

lemma toLowerCaseUnit_not_separator: "isAlnum c \<Longrightarrow> toLowerCaseUnit c \<noteq> 0x2D"
  unfolding isAlnum_def toLowerCaseUnit_def
  by (auto simp: word_le_nat_alt unat_word_ariths word_less_nat_alt)

lemma set_trim: "set (trim s) \<subseteq> set s"
proof -
  have "set (trim s) \<subseteq> set (dropWhile isWhiteSpace s)"
    unfolding trim_def using set_dropWhileD by fastforce
  also have "\<dots> \<subseteq> set s" using set_dropWhileD by fastforce
  finally show ?thesis .
qed

lemma trim_last: "trim s \<noteq> [] \<Longrightarrow> \<not> isWhiteSpace (last (trim s))"
proof -
  assume ne: "trim s \<noteq> []"
  let ?d = "dropWhile isWhiteSpace (rev (dropWhile isWhiteSpace s))"
  from ne have d: "?d \<noteq> []" by (simp add: trim_def)
  then have "\<not> isWhiteSpace (hd ?d)" by (rule hd_dropWhile)
  moreover have "last (trim s) = hd ?d" using d by (simp add: trim_def last_rev)
  ultimately show ?thesis by simp
qed

lemma set_replaceWhiteSpaceRuns:
  "set (replaceWhiteSpaceRuns r s) \<subseteq> set r \<union> {c \<in> set s. \<not> isWhiteSpace c}"
proof (induction r s rule: replaceWhiteSpaceRuns.induct)
  case (1 r)
  then show ?case by simp
next
  case (2 r c cs)
  show ?case
  proof (cases "isWhiteSpace c")
    case True
    with 2 have "set (replaceWhiteSpaceRuns r (dropWhile isWhiteSpace cs))
        \<subseteq> set r \<union> {c \<in> set (dropWhile isWhiteSpace cs). \<not> isWhiteSpace c}" by simp
    moreover have "set (dropWhile isWhiteSpace cs) \<subseteq> set cs" using set_dropWhileD by fastforce
    ultimately show ?thesis using True by auto
  next
    case False
    with 2 show ?thesis by auto
  qed
qed

lemma last_replaceWhiteSpaceRuns:
  "s \<noteq> [] \<Longrightarrow> \<not> isWhiteSpace (last s) \<Longrightarrow>
     replaceWhiteSpaceRuns r s \<noteq> [] \<and> last (replaceWhiteSpaceRuns r s) = last s"
proof (induction r s rule: replaceWhiteSpaceRuns.induct)
  case (1 r)
  then show ?case by simp
next
  case (2 r c cs)
  show ?case
  proof (cases "isWhiteSpace c")
    case True
    let ?d = "dropWhile isWhiteSpace cs"
    from True "2.prems" have cs: "cs \<noteq> []" by auto
    with "2.prems" have lcs: "\<not> isWhiteSpace (last cs)" by simp
    have d: "?d \<noteq> []" using cs lcs
      by (metis dropWhile_eq_Nil_conv last_in_set)
    have ld: "last ?d = last cs" using d
      by (metis append_Nil2 last_appendR takeWhile_dropWhile_id)
    from 2(1)[OF True d] ld lcs
    have "replaceWhiteSpaceRuns r ?d \<noteq> [] \<and> last (replaceWhiteSpaceRuns r ?d) = last cs" by simp
    then show ?thesis using True cs by simp
  next
    case False
    show ?thesis
    proof (cases "cs = []")
      case True
      then show ?thesis using False by simp
    next
      case ne: False
      with "2.prems" have "\<not> isWhiteSpace (last cs)" by simp
      from 2(2)[OF False ne this] show ?thesis using False ne by simp
    qed
  qed
qed

text \<open>What \<open>slugify\<close> lowers holds ASCII letters, digits and the separator only.\<close>

lemma slugify_pre_lower:
  "set (replaceWhiteSpaceRuns (js ''-'') (trim (filter (\<lambda>c. isAlnum c \<or> isWhiteSpace c) s)))
     \<subseteq> {c. isAlnum c \<or> c = 0x2D}"
proof -
  let ?f = "filter (\<lambda>c. isAlnum c \<or> isWhiteSpace c) s"
  have "set (replaceWhiteSpaceRuns (js ''-'') (trim ?f))
          \<subseteq> set (js ''-'') \<union> {c \<in> set (trim ?f). \<not> isWhiteSpace c}"
    by (rule set_replaceWhiteSpaceRuns)
  moreover have "set (trim ?f) \<subseteq> set ?f" by (rule set_trim)
  moreover have "set (js ''-'') = {0x2D}" by (simp add: js_def)
  ultimately show ?thesis by auto
qed

lemma slugify_alphabet: "\<forall>c \<in> set (slugify E s). isSlugUnit c"
  unfolding slugify_def Let_def toLowerCase_def
  using slugify_pre_lower toLowerCaseUnit_slug by fastforce

lemma slugify_last:
  assumes "slugify E s \<noteq> []"
  shows "last (slugify E s) \<noteq> 0x2D"
proof -
  let ?f = "filter (\<lambda>c. isAlnum c \<or> isWhiteSpace c) (concat (map (slugify_unit (charMap E)) (nfc E s)))"
  let ?t = "trim ?f"
  let ?r = "replaceWhiteSpaceRuns (js ''-'') ?t"
  have sl: "slugify E s = map toLowerCaseUnit ?r"
    by (simp add: slugify_def toLowerCase_def)
  have t: "?t \<noteq> []" using assms sl by auto
  then have nws: "\<not> isWhiteSpace (last ?t)" by (rule trim_last)
  have "last ?t \<in> set ?f" using t set_trim last_in_set by blast
  with nws have al: "isAlnum (last ?t)" by auto
  from last_replaceWhiteSpaceRuns[OF t nws]
  have r: "?r \<noteq> []" and lr: "last ?r = last ?t" by auto
  have "last (slugify E s) = toLowerCaseUnit (last ?t)"
    using sl r lr by (simp add: last_map)
  then show ?thesis using toLowerCaseUnit_not_separator[OF al] by simp
qed

lemmas key_eval = createTranslationKey_def TRANSLATION_KEY_MAX_LENGTH_def slugify_def
  slugify_unit_def REMOVE_def js_def trim_def isWhiteSpace_def isAlnum_def toLowerCase_def
  toLowerCaseUnit_def ascii_libs_def

text \<open>
  Claim C3, as the code has it. The key is a function of the text (and of the tables of
  the libraries), so equal texts give equal keys. For every text the key has at most 40
  code units, and each is a lowercase letter, a digit or the separator \<^verbatim>\<open>-\<close>.
  When the slug has at most 40 code units the key is the whole slug, and such a key does
  not end in a separator. A separator that the truncation leaves at the end is not
  trimmed.
\<close>

theorem createTranslationKey_shape:
  "length (createTranslationKey E s) \<le> 40 \<and>
   (\<forall>c \<in> set (createTranslationKey E s). isSlugUnit c) \<and>
   (length (slugify E s) \<le> 40 \<longrightarrow>
      createTranslationKey E s = slugify E s \<and>
      (createTranslationKey E s \<noteq> [] \<longrightarrow> last (createTranslationKey E s) \<noteq> 0x2D))"
proof -
  have "\<forall>c \<in> set (createTranslationKey E s). isSlugUnit c"
    unfolding createTranslationKey_def using slugify_alphabet in_set_takeD by fast
  moreover have "length (slugify E s) \<le> 40 \<longrightarrow> createTranslationKey E s = slugify E s"
    by (simp add: createTranslationKey_def TRANSLATION_KEY_MAX_LENGTH_def)
  moreover have "length (createTranslationKey E s) \<le> 40"
    by (simp add: createTranslationKey_def TRANSLATION_KEY_MAX_LENGTH_def)
  ultimately show ?thesis using slugify_last by metis
qed

text \<open>The theorem at the text \<^verbatim>\<open>Hello World!\<close>, whose key is \<^verbatim>\<open>hello-world\<close>.\<close>

theorem createTranslationKey_shape_witness:
  "length (slugify ascii_libs (js ''Hello World!'')) \<le> 40 \<and>
   createTranslationKey ascii_libs (js ''Hello World!'') = js ''hello-world'' \<and>
   last (createTranslationKey ascii_libs (js ''Hello World!'')) \<noteq> 0x2D"
proof -
  have k: "createTranslationKey ascii_libs (js ''Hello World!'') = js ''hello-world''"
    by (simp add: key_eval)
  have "slugify ascii_libs (js ''Hello World!'') = js ''hello-world''"
    by (simp add: key_eval)
  then have l: "length (slugify ascii_libs (js ''Hello World!'')) \<le> 40"
    by (simp add: js_def)
  have "createTranslationKey ascii_libs (js ''Hello World!'') \<noteq> []"
    using k by (simp add: js_def)
  with l k show ?thesis
    using createTranslationKey_shape [of ascii_libs "js ''Hello World!''"] by blast
qed

text \<open>
  Claim C3 as stated says that a key never ends in a separator. A text of 39 letters, a
  space and one more letter has a slug of 41 code units with the separator at index 39,
  and \<^verbatim>\<open>slice(0, 40)\<close> cuts right behind it.
\<close>

theorem createTranslationKey_trailing_separator_counterexample:
  "createTranslationKey ascii_libs (js ''aaaaaaaaaaaaaaaaaaaaaaaaaaaaaaaaaaaaaaa b'')
     = js ''aaaaaaaaaaaaaaaaaaaaaaaaaaaaaaaaaaaaaaa-'' \<and>
   last (createTranslationKey ascii_libs (js ''aaaaaaaaaaaaaaaaaaaaaaaaaaaaaaaaaaaaaaa b'')) = 0x2D"
proof -
  have "createTranslationKey ascii_libs (js ''aaaaaaaaaaaaaaaaaaaaaaaaaaaaaaaaaaaaaaa b'')
     = js ''aaaaaaaaaaaaaaaaaaaaaaaaaaaaaaaaaaaaaaa-''"
    by (simp add: key_eval)
  then show ?thesis by (simp add: js_def)
qed

section \<open>Properties of the hook binding\<close>


lemma visit_field:
  "map_of fs k = Some v \<Longrightarrow> p \<in> set (visit P v) \<Longrightarrow> PField k # p \<in> set (visit P (Node t fs))"
proof -
  assume m: "map_of fs k = Some v" and p: "p \<in> set (visit P v)"
  from m have "(k, v) \<in> set fs" by (rule map_of_SomeD)
  then have "(k, visit P v) \<in> set (map (map_prod id (visit P)) fs)" by force
  with p show ?thesis by force
qed

lemma visit_elem:
  "i < length vs \<Longrightarrow> p \<in> set (visit P (vs ! i)) \<Longrightarrow> PIndex i # p \<in> set (visit P (Arr vs))"
proof -
  assume i: "i < length vs" and p: "p \<in> set (visit P (vs ! i))"
  from i have "(i, visit P (vs ! i)) \<in> set (zip [0..<length vs] (map (visit P) vs))"
    by (force simp: in_set_zip)
  with p show ?thesis by force
qed

lemma hook_call_path:
  "[PField ''declarations'', PIndex 0, PField ''init''] \<in> set (visit (check ''CallExpression'') hook)"
  by (simp add: hook_def j_variableDeclaration_def j_variableDeclarator_def j_objectPattern_def
      j_callExpression_def j_identifier_def)

lemma hook_call_value:
  "value_at hook [PField ''declarations'', PIndex 0, PField ''init'']
     = j_callExpression (j_identifier (js ''useTranslation'')) []"
  by (simp add: hook_def value_at_def j_variableDeclaration_def j_variableDeclarator_def)

lemma hasHook_inserted:
  assumes b: "map_of fs ''body'' = Some (Node tb fsb)"
      and s: "map_of fsb ''body'' = Some (Arr (hook # vs))"
  shows "hasHook (Node t fs)"
proof -
  let ?hp = "[PField ''declarations'', PIndex 0, PField ''init'']"
  let ?p = "PField ''body'' # PField ''body'' # PIndex 0 # ?hp"
  have "PIndex 0 # ?hp \<in> set (visit (check ''CallExpression'') (Arr (hook # vs)))"
    using visit_elem [of 0 "hook # vs" ?hp] hook_call_path by simp
  then have "PField ''body'' # PIndex 0 # ?hp \<in> set (visit (check ''CallExpression'') (Node tb fsb))"
    using s by (rule visit_field [rotated])
  then have "?p \<in> set (visit (check ''CallExpression'') (Node t fs))"
    using b by (rule visit_field [rotated])
  then have f: "?p \<in> set (find ''CallExpression'' (Node t fs))"
    by (simp add: find_def)
  have "value_at (Node t fs) ?p = value_at hook ?hp"
    using b s by (simp add: value_at_def)
  then have v: "value_at (Node t fs) ?p = j_callExpression (j_identifier (js ''useTranslation'')) []"
    by (simp only: hook_call_value)
  have "get (get (value_at (Node t fs) ?p) ''callee'') ''type'' = Str (js ''Identifier'') \<and>
        get (get (value_at (Node t fs) ?p) ''callee'') ''name'' = Str (js ''useTranslation'')"
    unfolding v by (simp add: j_callExpression_def j_identifier_def)
  with f show ?thesis
    unfolding hasHook_def filter_empty_conv by blast
qed

lemma get_set_prop:
  "get (set_prop (Node t fs) k v) k' = (if k' = ''type'' then Str (js t) else if k' = k then v else get (Node t fs) k')"
  by (simp add: update_conv')

text \<open>
  Claim C10. Let \<open>fn\<close> be a function declaration or an arrow function. When it holds
  no call of \<^verbatim>\<open>useTranslation\<close> and its body is not a block (a single expression),
  \<^verbatim>\<open>ensureTranslationHook\<close> replaces the body by a block whose first statement is the
  hook binding and whose second returns the original expression, and changes no other
  field; a block body gets the binding as its first statement. A function that already
  holds the call, as a call or as an optional call, is left as it is. Applied to its own result the operation changes
  nothing (for a block body, provided the block has its array of statements, as every
  block from the parser has).
\<close>

theorem ensureTranslationHook_effect:
  assumes "check ''FunctionDeclaration'' fn \<or> check ''ArrowFunctionExpression'' fn"
  shows
  "(\<not> hasHook fn \<and> \<not> check ''BlockStatement'' (get fn ''body'') \<longrightarrow>
      get (ensureTranslationHook fn) ''body''
        = j_blockStatement [hook, j_returnStatement (get fn ''body'')] \<and>
      (\<forall>k. k \<noteq> ''body'' \<longrightarrow> get (ensureTranslationHook fn) k = get fn k)) \<and>
   (\<not> hasHook fn \<and> check ''BlockStatement'' (get fn ''body'') \<and>
    get (get fn ''body'') ''body'' = Arr vs \<longrightarrow>
      get (get (ensureTranslationHook fn) ''body'') ''body'' = Arr (hook # vs)) \<and>
   (hasHook fn \<longrightarrow> ensureTranslationHook fn = fn) \<and>
   ((check ''BlockStatement'' (get fn ''body'') \<longrightarrow> (\<exists>ws. get (get fn ''body'') ''body'' = Arr ws)) \<longrightarrow>
      hasHook (ensureTranslationHook fn) \<and>
      ensureTranslationHook (ensureTranslationHook fn) = ensureTranslationHook fn)"
proof -
  from assms obtain t fs where fn: "fn = Node t fs" by (cases fn) auto
  have isfn: "check ''FunctionDeclaration'' (Node t fs) \<or> check ''ArrowFunctionExpression'' (Node t fs)"
    using assms fn by simp
  have a: "\<not> hasHook fn \<and> \<not> check ''BlockStatement'' (get fn ''body'') \<longrightarrow>
      get (ensureTranslationHook fn) ''body''
        = j_blockStatement [hook, j_returnStatement (get fn ''body'')] \<and>
      (\<forall>k. k \<noteq> ''body'' \<longrightarrow> get (ensureTranslationHook fn) k = get fn k)"
    using isfn unfolding fn ensureTranslationHook_def Let_def
    by (auto simp: update_conv')
  have b: "\<not> hasHook fn \<and> check ''BlockStatement'' (get fn ''body'') \<and>
      get (get fn ''body'') ''body'' = Arr vs \<longrightarrow>
      get (get (ensureTranslationHook fn) ''body'') ''body'' = Arr (hook # vs)"
  proof (intro impI, elim conjE)
    assume nh: "\<not> hasHook fn" and bl: "check ''BlockStatement'' (get fn ''body'')"
       and ar: "get (get fn ''body'') ''body'' = Arr vs"
    from bl obtain tb fsb where fb: "get fn ''body'' = Node tb fsb" by (cases "get fn ''body''") auto
    have "ensureTranslationHook fn
            = set_prop fn ''body'' (set_prop (Node tb fsb) ''body'' (Arr (hook # vs)))"
      using nh bl ar isfn fb unfolding ensureTranslationHook_def Let_def fn by simp
    then show "get (get (ensureTranslationHook fn) ''body'') ''body'' = Arr (hook # vs)"
      unfolding fn by (simp add: update_conv')
  qed
  have c: "hasHook fn \<longrightarrow> ensureTranslationHook fn = fn"
    by (simp add: ensureTranslationHook_def)
  have d: "hasHook (ensureTranslationHook fn)"
    if wf: "check ''BlockStatement'' (get fn ''body'') \<longrightarrow> (\<exists>ws. get (get fn ''body'') ''body'' = Arr ws)"
  proof (cases "hasHook fn")
    case True
    then show ?thesis by (simp add: ensureTranslationHook_def)
  next
    case nh: False
    show ?thesis
    proof (cases "check ''BlockStatement'' (get fn ''body'')")
      case True
      then obtain tb fsb where fb: "get fn ''body'' = Node tb fsb" by (cases "get fn ''body''") auto
      from True wf obtain ws where ws: "get (Node tb fsb) ''body'' = Arr ws" using fb by auto
      have e: "ensureTranslationHook fn
            = Node t (AList.update ''body'' (Node tb (AList.update ''body'' (Arr (hook # ws)) fsb)) fs)"
        using nh True ws isfn fb unfolding ensureTranslationHook_def Let_def fn by simp
      show ?thesis unfolding e
        by (rule hasHook_inserted [where tb = tb and vs = ws
              and fsb = "AList.update ''body'' (Arr (hook # ws)) fsb"])
           (simp_all add: update_conv')
    next
      case False
      have e: "ensureTranslationHook fn
            = Node t (AList.update ''body'' (j_blockStatement [hook, j_returnStatement (get fn ''body'')]) fs)"
        using nh False isfn unfolding ensureTranslationHook_def Let_def fn by simp
      show ?thesis unfolding e j_blockStatement_def
        by (rule hasHook_inserted [where tb = "''BlockStatement''"
              and vs = "[j_returnStatement (get fn ''body'')]"
              and fsb = "[(''body'', Arr [hook, j_returnStatement (get fn ''body'')])]"])
           (simp_all add: update_conv')
    qed
  qed
  have e: "ensureTranslationHook (ensureTranslationHook fn) = ensureTranslationHook fn"
    if wf: "check ''BlockStatement'' (get fn ''body'') \<longrightarrow> (\<exists>ws. get (get fn ''body'') ''body'' = Arr ws)"
    using d [OF wf] by (simp add: ensureTranslationHook_def [of "ensureTranslationHook fn"])
  from a b c d e show ?thesis by blast
qed


text \<open>
  The theorem at four functions: the arrow function \<^verbatim>\<open>() => <div>Hello</div>\<close>
  (an expression body), the declaration of \<^verbatim>\<open>Welcome\<close> (a block body), the
  arrow function after the binding was inserted (it holds the call), and
  \<^verbatim>\<open>function Lazy() { useTranslation?.(); return <div>Hello</div> }\<close>, which holds
  the call as an optional call and is left as it is.
\<close>

theorem ensureTranslationHook_effect_witness:
  "\<not> hasHook (arrowFunctionExpression (jsxElement (js ''div'') [] [jsxText (js ''Hello'')])) \<and>
   get (ensureTranslationHook (arrowFunctionExpression (jsxElement (js ''div'') [] [jsxText (js ''Hello'')]))) ''body''
     = j_blockStatement [hook, j_returnStatement (jsxElement (js ''div'') [] [jsxText (js ''Hello'')])] \<and>
   hasHook (ensureTranslationHook (arrowFunctionExpression (jsxElement (js ''div'') [] [jsxText (js ''Hello'')]))) \<and>
   ensureTranslationHook (ensureTranslationHook (arrowFunctionExpression (jsxElement (js ''div'') [] [jsxText (js ''Hello'')])))
     = ensureTranslationHook (arrowFunctionExpression (jsxElement (js ''div'') [] [jsxText (js ''Hello'')])) \<and>
   \<not> hasHook (functionDeclaration (js ''Welcome'') (j_blockStatement [j_returnStatement (jsxText (js ''Hello''))])) \<and>
   get (get (ensureTranslationHook
               (functionDeclaration (js ''Welcome'') (j_blockStatement [j_returnStatement (jsxText (js ''Hello''))])))
          ''body'') ''body''
     = Arr [hook, j_returnStatement (jsxText (js ''Hello''))] \<and>
   hasHook Lazy_function \<and>
   ensureTranslationHook Lazy_function = Lazy_function"
proof -
  let ?A = "arrowFunctionExpression (jsxElement (js ''div'') [] [jsxText (js ''Hello'')])"
  let ?W = "functionDeclaration (js ''Welcome'') (j_blockStatement [j_returnStatement (jsxText (js ''Hello''))])"
  have fa: "check ''FunctionDeclaration'' ?A \<or> check ''ArrowFunctionExpression'' ?A"
    by (simp add: arrowFunctionExpression_def)
  have ba: "get ?A ''body'' = jsxElement (js ''div'') [] [jsxText (js ''Hello'')]"
    by (simp add: arrowFunctionExpression_def)
  have nba: "\<not> check ''BlockStatement'' (get ?A ''body'')"
    unfolding ba by (simp add: jsxElement_def)
  have nha: "\<not> hasHook ?A"
    by (simp add: hasHook_def find_def arrowFunctionExpression_def jsxElement_def jsxText_def
        jsxIdentifier_def)
  have fw: "check ''FunctionDeclaration'' ?W \<or> check ''ArrowFunctionExpression'' ?W"
    by (simp add: functionDeclaration_def)
  have bw: "check ''BlockStatement'' (get ?W ''body'')"
    by (simp add: functionDeclaration_def j_blockStatement_def)
  have sw: "get (get ?W ''body'') ''body'' = Arr [j_returnStatement (jsxText (js ''Hello''))]"
    by (simp add: functionDeclaration_def j_blockStatement_def)
  have nhw: "\<not> hasHook ?W"
    by (simp add: hasHook_def find_def functionDeclaration_def j_blockStatement_def
        j_returnStatement_def jsxText_def j_identifier_def)
  from ensureTranslationHook_effect [OF fa, of "[]"] nha nba ba
  have "get (ensureTranslationHook ?A) ''body''
          = j_blockStatement [hook, j_returnStatement (jsxElement (js ''div'') [] [jsxText (js ''Hello'')])]"
       "hasHook (ensureTranslationHook ?A)"
       "ensureTranslationHook (ensureTranslationHook ?A) = ensureTranslationHook ?A"
    by simp_all
  moreover from ensureTranslationHook_effect [OF fw, of "[j_returnStatement (jsxText (js ''Hello''))]"] nhw bw sw
  have "get (get (ensureTranslationHook ?W) ''body'') ''body'' = Arr [hook, j_returnStatement (jsxText (js ''Hello''))]"
    by blast
  moreover have fl: "check ''FunctionDeclaration'' Lazy_function \<or>
      check ''ArrowFunctionExpression'' Lazy_function"
    by (simp add: Lazy_function_def functionDeclaration_def)
  have hl: "hasHook Lazy_function"
    by (simp add: hasHook_def find_def Lazy_function_def functionDeclaration_def
        j_blockStatement_def j_returnStatement_def jsxElement_def jsxText_def jsxIdentifier_def
        j_identifier_def value_at_def)
  from ensureTranslationHook_effect [OF fl, of "[]"] hl
  have "ensureTranslationHook Lazy_function = Lazy_function" by blast
  ultimately show ?thesis using nha nhw hl by blast
qed

section \<open>The import of the hook on two files\<close>

text \<open>
  Claim C5, on the two example files. In the file that starts with
  \<^verbatim>\<open>import React from 'react'\<close> the import of \<^verbatim>\<open>useTranslation\<close> is inserted
  before that first import, and a second call changes nothing. In the file of the example
  at the head of transform.ts, which has no import statement,
  \<^verbatim>\<open>root.find(j.ImportDeclaration).at(0)\<close> is empty and nothing is inserted: the file
  is returned as it was, without the import.
\<close>

theorem ensureTranslationImport_examples:
  "ensureTranslationImport (js ''react-i18next'') Welcome_react_file
     = sourceFile
         [j_importDeclaration [j_importSpecifier (j_identifier (js ''useTranslation''))]
            (j_literal (js ''react-i18next'')),
          j_importDeclaration [Node ''ImportDefaultSpecifier'' [(''local'', j_identifier (js ''React''))]]
            (stringLiteral (js ''react'')),
          functionDeclaration (js ''Welcome'')
            (j_blockStatement [j_returnStatement (jsxElement (js ''div'') [] [jsxText (js ''Hello World'')])])] \<and>
   ensureTranslationImport (js ''react-i18next'')
       (ensureTranslationImport (js ''react-i18next'') Welcome_react_file)
     = ensureTranslationImport (js ''react-i18next'') Welcome_react_file \<and>
   find ''ImportDeclaration'' Welcome_file = [] \<and>
   ensureTranslationImport (js ''react-i18next'') Welcome_file = Welcome_file"
proof -
  have a: "ensureTranslationImport (js ''react-i18next'') Welcome_react_file
     = sourceFile
         [j_importDeclaration [j_importSpecifier (j_identifier (js ''useTranslation''))]
            (j_literal (js ''react-i18next'')),
          j_importDeclaration [Node ''ImportDefaultSpecifier'' [(''local'', j_identifier (js ''React''))]]
            (stringLiteral (js ''react'')),
          functionDeclaration (js ''Welcome'')
            (j_blockStatement [j_returnStatement (jsxElement (js ''div'') [] [jsxText (js ''Hello World'')])])]"
    by (simp add: Welcome_react_file_def ensureTranslationImport_def find_def tree_eval js_def)
  have b: "ensureTranslationImport (js ''react-i18next'')
       (sourceFile
         [j_importDeclaration [j_importSpecifier (j_identifier (js ''useTranslation''))]
            (j_literal (js ''react-i18next'')),
          j_importDeclaration [Node ''ImportDefaultSpecifier'' [(''local'', j_identifier (js ''React''))]]
            (stringLiteral (js ''react'')),
          functionDeclaration (js ''Welcome'')
            (j_blockStatement [j_returnStatement (jsxElement (js ''div'') [] [jsxText (js ''Hello World'')])])])
     = sourceFile
         [j_importDeclaration [j_importSpecifier (j_identifier (js ''useTranslation''))]
            (j_literal (js ''react-i18next'')),
          j_importDeclaration [Node ''ImportDefaultSpecifier'' [(''local'', j_identifier (js ''React''))]]
            (stringLiteral (js ''react'')),
          functionDeclaration (js ''Welcome'')
            (j_blockStatement [j_returnStatement (jsxElement (js ''div'') [] [jsxText (js ''Hello World'')])])]"
    by (simp add: ensureTranslationImport_def find_def tree_eval js_def)
  have c: "find ''ImportDeclaration'' Welcome_file = []"
    by (simp add: Welcome_file_def find_def tree_eval)
  have d: "ensureTranslationImport (js ''react-i18next'') Welcome_file = Welcome_file"
    unfolding ensureTranslationImport_def c by simp
  from a b c d show ?thesis by simp
qed


section \<open>The objects after the bodies of a pass\<close>



















































section \<open>Properties of the catalog load\<close>

text \<open>
  Claim C6. For every file system, parser, path and root key the load returns a value
  and throws nothing. When the file cannot be read or its text cannot be parsed the
  value is the empty object. When the text parses to an object that stores a value under
  a (non-empty) root key, the load with that key returns exactly this value, and the load
  without a key returns what was parsed.
\<close>

theorem readTranslations_never_throws:
  "(\<exists>v. readTranslations H path translationRoot = Inr v) \<and>
   (\<forall>e. readFileSync H path = Inl e \<longrightarrow>
      readTranslations H path translationRoot = Inr (Some (JObj []))) \<and>
   (\<forall>d e. readFileSync H path = Inr d \<and> JSON_parse H d = Inl e \<longrightarrow>
      readTranslations H path translationRoot = Inr (Some (JObj []))) \<and>
   (\<forall>d kvs r v. readFileSync H path = Inr d \<and> JSON_parse H d = Inr (JObj kvs) \<and>
      r \<noteq> [] \<and> map_of kvs r = Some v \<longrightarrow>
      readTranslations H path (Some r) = Inr (Some v)) \<and>
   (\<forall>d parsed. readFileSync H path = Inr d \<and> JSON_parse H d = Inr parsed \<longrightarrow>
      readTranslations H path None = Inr (Some parsed))"
proof -
  have a: "\<exists>v. readTranslations H path translationRoot = Inr v"
    by (cases "readTranslations_try H path translationRoot") (simp_all add: readTranslations_def)
  have b: "\<forall>e. readFileSync H path = Inl e \<longrightarrow>
      readTranslations H path translationRoot = Inr (Some (JObj []))"
    by (simp add: readTranslations_def readTranslations_try_def)
  have c: "\<forall>d e. readFileSync H path = Inr d \<and> JSON_parse H d = Inl e \<longrightarrow>
      readTranslations H path translationRoot = Inr (Some (JObj []))"
    by (simp add: readTranslations_def readTranslations_try_def)
  have d: "\<forall>d kvs r v. readFileSync H path = Inr d \<and> JSON_parse H d = Inr (JObj kvs) \<and>
      r \<noteq> [] \<and> map_of kvs r = Some v \<longrightarrow>
      readTranslations H path (Some r) = Inr (Some v)"
    by (simp add: readTranslations_def readTranslations_try_def)
  have e: "\<forall>d parsed. readFileSync H path = Inr d \<and> JSON_parse H d = Inr parsed \<longrightarrow>
      readTranslations H path None = Inr (Some parsed)"
    by (simp add: readTranslations_def readTranslations_try_def)
  from a b c d e show ?thesis by blast
qed

text \<open>
  The theorem on the example files: a missing file and a file that does not parse give
  the empty object, and the root key \<^verbatim>\<open>en\<close> gives the mapping stored under it.
\<close>

theorem readTranslations_never_throws_witness:
  "readFileSync example_host (js ''missing.json'') = Inl IOError \<and>
   readTranslations example_host (js ''missing.json'') (Some (js ''en'')) = Inr (Some (JObj [])) \<and>
   readTranslations example_host (js ''broken.json'') (Some (js ''en'')) = Inr (Some (JObj [])) \<and>
   readTranslations example_host (js ''translations.json'') (Some (js ''en''))
     = Inr (Some (JObj [(js ''component'', JObj [(js ''hello'', JStr (js ''Hello''))])]))"
proof -
  let ?text = "js ''{\"en\": {\"component\": {\"hello\": \"Hello\"}}}''"
  have m: "readFileSync example_host (js ''missing.json'') = Inl IOError"
    by (simp add: example_host_def js_def)
  have b1: "readFileSync example_host (js ''broken.json'') = Inr (js ''{\"en\": '')"
    by (simp add: example_host_def js_def)
  have b2: "JSON_parse example_host (js ''{\"en\": '') = Inl SyntaxError"
    by (simp add: example_host_def js_def)
  have t1: "readFileSync example_host (js ''translations.json'') = Inr ?text"
    by (simp add: example_host_def js_def)
  have t2: "JSON_parse example_host ?text
      = Inr (JObj [(js ''en'', JObj [(js ''component'', JObj [(js ''hello'', JStr (js ''Hello''))])])])"
    by (simp add: example_host_def)
  have t3: "js ''en'' \<noteq> [] \<and>
      map_of [(js ''en'', JObj [(js ''component'', JObj [(js ''hello'', JStr (js ''Hello''))])])] (js ''en'')
        = Some (JObj [(js ''component'', JObj [(js ''hello'', JStr (js ''Hello''))])])"
    by (simp add: js_def)
  from readTranslations_never_throws [of example_host "js ''missing.json''" "Some (js ''en'')"] m
  have 1: "readTranslations example_host (js ''missing.json'') (Some (js ''en'')) = Inr (Some (JObj []))"
    by blast
  from readTranslations_never_throws [of example_host "js ''broken.json''" "Some (js ''en'')"] b1 b2
  have 2: "readTranslations example_host (js ''broken.json'') (Some (js ''en'')) = Inr (Some (JObj []))"
    by blast
  from readTranslations_never_throws [of example_host "js ''translations.json''" "Some (js ''en'')"] t1 t2 t3
  have 3: "readTranslations example_host (js ''translations.json'') (Some (js ''en''))
     = Inr (Some (JObj [(js ''component'', JObj [(js ''hello'', JStr (js ''Hello''))])]))"
    by blast
  from m 1 2 3 show ?thesis by blast
qed


section \<open>Properties of the attribute pass\<close>








section \<open>Properties of the template pass\<close>










section \<open>The store and the tree\<close>

text \<open>
  On a tree as the parser returned it, the setup injector on the store does what it does
  on the tree: the hook for a function with a block body (\<open>Welcome_file\<close>) and for an
  arrow function with an expression body (\<open>Badge_file\<close>), the import for a file with
  an import declaration (\<open>Welcome_react_file\<close>) and for a file without one
  (\<open>Welcome_file\<close>).
\<close>

lemma ensureTranslationHook_h_block:
  "Option.bind
     (ensureTranslationHook_h 40 (load Welcome_file) [PField ''program'', PField ''body'', PIndex 0])
     (\<lambda>h. readback 40 h (HRef [PField ''program'', PField ''body'', PIndex 0]))
   = Some (ensureTranslationHook (value_at Welcome_file [PField ''program'', PField ''body'', PIndex 0]))"
  by code_simp

lemma ensureTranslationHook_h_expression:
  "Option.bind
     (ensureTranslationHook_h 40 (load Badge_file)
        [PField ''program'', PField ''body'', PIndex 0, PField ''declarations'', PIndex 0, PField ''init''])
     (\<lambda>h. readback 40 h
        (HRef [PField ''program'', PField ''body'', PIndex 0, PField ''declarations'', PIndex 0, PField ''init'']))
   = Some (ensureTranslationHook
        (value_at Badge_file
           [PField ''program'', PField ''body'', PIndex 0, PField ''declarations'', PIndex 0, PField ''init'']))"
  by code_simp

lemma ensureTranslationImport_h_first:
  "Option.bind (ensureTranslationImport_h 40 (js ''react-i18next'') (load Welcome_react_file))
     (\<lambda>h. readback 40 h (HRef []))
   = Some (ensureTranslationImport (js ''react-i18next'') Welcome_react_file)"
  by code_simp

lemma ensureTranslationImport_h_none:
  "Option.bind (ensureTranslationImport_h 40 (js ''react-i18next'') (load Welcome_file))
     (\<lambda>h. readback 40 h (HRef []))
   = Some (ensureTranslationImport (js ''react-i18next'') Welcome_file)"
  by code_simp

section \<open>Files that the passes leave as they are\<close>

text \<open>
  The three passes change neither the tree nor the catalog of a file whose only
  template literals are the value of a \<^verbatim>\<open>className\<close> attribute and the quasi of a
  tagged template (\<open>Card_file\<close>), of a file whose only attribute lies outside every
  function (\<open>logo_file\<close>), and of a file whose only text lies in a \<^verbatim>\<open>function\<close>
  expression (\<open>Legacy_file\<close>).
\<close>

lemma transform_passes_Card_file:
  "transform_passes 40 ascii_libs (js ''react-i18next'') (Card_file, []) = Inr (Card_file, [])"
  by code_simp

lemma transform_passes_logo_file:
  "transform_passes 40 ascii_libs (js ''react-i18next'') (logo_file, []) = Inr (logo_file, [])"
  by code_simp

lemma transform_passes_Legacy_file:
  "transform_passes 40 ascii_libs (js ''react-i18next'') (Legacy_file, []) = Inr (Legacy_file, [])"
  by code_simp

section \<open>A second run of the passes\<close>

text \<open>
  Claim C9, on two files, with the second run taken on the tree and the catalog that the
  first run returns. On the file \<open>Welcome_react_file\<close> the first run inserts the import
  and the hook and replaces the text, and the second run changes neither the tree nor the
  catalog. On \<open>Nested_file\<close>, \<^verbatim>\<open>function F() { return `a ${`b`}` }\<close>, the first
  run replaces the outer template by a call whose object holds the inner template, then
  records the entry \<^verbatim>\<open>f.b\<close> for the inner template and writes its replacement into
  the array of expressions of the outer template, which is no longer part of the tree:
  the inner template stays in the output. The second run finds it and replaces it, so
  the second run changes the source (the catalog, the import and the hook stay as they
  are).
\<close>

theorem transform_passes_second_run:
  "transform_passes 40 ascii_libs (js ''react-i18next'') (Welcome_react_file, [])
     = Inr (Welcome_react_out, Welcome_catalog) \<and>
   transform_passes 40 ascii_libs (js ''react-i18next'') (Welcome_react_out, Welcome_catalog)
     = Inr (Welcome_react_out, Welcome_catalog) \<and>
   transform_passes 40 ascii_libs (js ''react-i18next'') (Nested_file, [])
     = Inr (Nested_once, Nested_catalog) \<and>
   transform_passes 40 ascii_libs (js ''react-i18next'') (Nested_once, Nested_catalog)
     = Inr (Nested_twice, Nested_catalog) \<and>
   Nested_twice \<noteq> Nested_once"
proof -
  have w1: "transform_passes 40 ascii_libs (js ''react-i18next'') (Welcome_react_file, [])
     = Inr (Welcome_react_out, Welcome_catalog)"
    by code_simp
  have w2: "transform_passes 40 ascii_libs (js ''react-i18next'') (Welcome_react_out, Welcome_catalog)
     = Inr (Welcome_react_out, Welcome_catalog)"
    by code_simp
  have n1: "transform_passes 40 ascii_libs (js ''react-i18next'') (Nested_file, [])
     = Inr (Nested_once, Nested_catalog)"
    by code_simp
  have n2: "transform_passes 40 ascii_libs (js ''react-i18next'') (Nested_once, Nested_catalog)
     = Inr (Nested_twice, Nested_catalog)"
    by code_simp
  have n3: "Nested_twice \<noteq> Nested_once"
    by code_simp
  from w1 w2 n1 n2 n3 show ?thesis by (intro conjI)
qed

end
